theory Spec2Isabelle
  imports Main
begin

section \<open>Data model (types.ts)\<close>

text \<open>
  The enums and string-literal unions of \<^verbatim>\<open>types.ts\<close> are datatypes, the interfaces
  are records. Numbers that the program only ever uses as integers (mastery scores,
  option indices) are \<open>int\<close>; timestamps are \<open>nat\<close>. Optional fields are \<open>option\<close>s.
\<close>

datatype AgentType = ASSESSMENT | ADAPTATION | CURATOR | LANGUAGE | SAFETY | SYSTEM

datatype LogStatus = pending | success | warning | error

record AgentLog =
  log_id :: string
  log_timestamp :: nat
  agent :: AgentType
  action :: string
  details :: string
  status :: LogStatus

datatype Difficulty = easy | medium | hard

record QuizQuestion =
  quiz_id :: "string option"
  questionText :: string
  options :: "string list"
  correctOptionIndex :: int
  explanation :: string
  difficulty :: Difficulty
  quiz_topic :: string

datatype LanguageMode = english | urdu_mix

record LearningMaterial =
  title :: string
  content :: string
  readingLevel :: string
  sourceAttribution :: string
  languageMode :: LanguageMode

text \<open>The literal type \<^verbatim>\<open>'quiz' | 'content'\<close> tags history entries and adaptation plans.\<close>

datatype QuizOrContent = quiz | content_type

datatype HistoryData = QuizData QuizQuestion | MaterialData LearningMaterial

record HistoryEntry =
  h_type :: QuizOrContent
  h_data :: HistoryData
  h_userResponse :: "int option"
  h_isCorrect :: "bool option"
  h_timestamp :: nat

record LearningSession =
  topic :: string
  courseName :: string
  gradeLevel :: string
  masteryScore :: int
  history :: "HistoryEntry list"

datatype Step = idle | assessing | learning | summary

record AppState =
  isOfflineMode :: bool
  isLowBandwidth :: bool
  currentStep :: Step
  logs :: "AgentLog list"
  session :: "LearningSession option"
  isLoading :: bool

section \<open>The reducer (App.tsx)\<close>

definition initialState :: AppState where
  "initialState =
     \<lparr>isOfflineMode = False, isLowBandwidth = False, currentStep = idle, logs = [],
      session = None, isLoading = False\<rparr>"

text \<open>
  The eight actions of the \<^verbatim>\<open>Action\<close> union. \<open>UNRECOGNIZED\<close> stands for an action object
  whose \<^verbatim>\<open>type\<close> is none of the eight: the reducer's \<^verbatim>\<open>default\<close> branch.
\<close>

datatype Action =
    ADD_LOG AgentLog
  | START_SESSION string string string  \<comment> \<open>topic, grade, courseName\<close>
  | SET_LOADING bool
  | SET_CURRENT_QUESTION QuizQuestion
  | SET_CURRENT_CONTENT LearningMaterial
  | RECORD_ANSWER QuizQuestion bool  \<comment> \<open>question, isCorrect\<close>
  | TOGGLE_BANDWIDTH
  | TOGGLE_OFFLINE_MODE
  | UNRECOGNIZED

text \<open>
  \<^verbatim>\<open>appReducer\<close>. The \<^verbatim>\<open>RECORD_ANSWER\<close> branch reads the clock (\<^verbatim>\<open>Date.now()\<close>); the
  value read is the first argument.
\<close>

fun appReducer :: "nat \<Rightarrow> AppState \<Rightarrow> Action \<Rightarrow> AppState" where
  "appReducer now state (ADD_LOG payload) = state\<lparr>logs := logs state @ [payload]\<rparr>"
| "appReducer now state (START_SESSION topic' grade courseName') =
     state\<lparr>currentStep := assessing,
           session := Some \<lparr>topic = topic', courseName = courseName', gradeLevel = grade,
                            masteryScore = 0, history = []\<rparr>,
           logs := []\<rparr>"
| "appReducer now state (SET_LOADING payload) = state\<lparr>isLoading := payload\<rparr>"
| "appReducer now state (SET_CURRENT_QUESTION payload) =
     state\<lparr>currentStep := assessing, isLoading := False\<rparr>"
| "appReducer now state (SET_CURRENT_CONTENT payload) =
     state\<lparr>currentStep := learning, isLoading := False\<rparr>"
| "appReducer now state (RECORD_ANSWER question isCorrect) =
     (case session state of
        None \<Rightarrow> state
      | Some sess \<Rightarrow>
          let newMastery =
                (if isCorrect then min 100 (masteryScore sess + 20)
                 else max 0 (masteryScore sess - 10))
          in state\<lparr>session := Some (sess\<lparr>
               masteryScore := newMastery,
               history := history sess @
                 [\<lparr>h_type = quiz, h_data = QuizData question, h_userResponse = None,
                   h_isCorrect = Some isCorrect, h_timestamp = now\<rparr>]\<rparr>)\<rparr>)"
| "appReducer now state TOGGLE_BANDWIDTH = state\<lparr>isLowBandwidth := \<not> isLowBandwidth state\<rparr>"
| "appReducer now state TOGGLE_OFFLINE_MODE = state\<lparr>isOfflineMode := \<not> isOfflineMode state\<rparr>"
| "appReducer now state UNRECOGNIZED = state"

section \<open>The model gateway (services/geminiService.ts)\<close>

subsection \<open>Requests, replies and failures\<close>

text \<open>
  A response schema as the service receives it: the shape of \<^verbatim>\<open>quizSchema\<close> and
  \<^verbatim>\<open>contentSchema\<close>.
\<close>

datatype Schema =
    STRING
  | STRING_enum "string list"
  | INTEGER
  | ARRAY Schema
  | OBJECT "(string \<times> Schema) list" "string list"  \<comment> \<open>properties, required\<close>

record GenRequest =
  model :: string
  contents :: string
  responseMimeType :: string
  responseSchema :: "Schema option"
  systemInstruction :: "string option"

text \<open>
  \<^verbatim>\<open>ai.models.generateContent\<close> is the external service. Awaiting it either throws
  (\<open>Rejected\<close>) or yields a response whose \<^verbatim>\<open>text\<close> is a string or undefined. The service
  is a parameter of the model; it may answer depending on every request sent before.
\<close>

datatype Reply = Rejected | Resolved "string option"

type_synonym Service = "GenRequest list \<Rightarrow> GenRequest \<Rightarrow> Reply"

text \<open>
  What a gateway function throws, named as in the specification's taxonomy:
  \<^verbatim>\<open>throw new Error("No response from ...")\<close> is \<open>EmptyResponse\<close> (with its message), a
  \<^verbatim>\<open>SyntaxError\<close> of \<^verbatim>\<open>JSON.parse\<close> is \<open>MalformedResponse\<close>, a rejected service call is
  \<open>TransportFailure\<close>.
\<close>

datatype GwError = EmptyResponse string | MalformedResponse | TransportFailure

text \<open>The request is issued and recorded on the wire (the list of requests sent so far).\<close>

definition generateContent :: "Service \<Rightarrow> GenRequest \<Rightarrow> GenRequest list \<Rightarrow> Reply \<times> GenRequest list" where
  "generateContent ai req wire = (ai wire req, wire @ [req])"

text \<open>\<^verbatim>\<open>!text\<close>: undefined and the empty string are falsy.\<close>

fun no_text :: "string option \<Rightarrow> bool" where
  "no_text None = True"
| "no_text (Some t) = (t = [])"

text \<open>
  \<^verbatim>\<open>JSON.parse\<close> is a parameter of the gateway functions: \<open>None\<close> when it throws, and the
  parsed value otherwise. Its result type is a type variable where the source returns
  the parsed value as it is (a TypeScript cast is erased at run time).
\<close>

fun parse_reply :: "(string \<Rightarrow> 'a option) \<Rightarrow> string option \<Rightarrow> GwError + 'a" where
  "parse_reply JSON_parse None = Inl MalformedResponse"
| "parse_reply JSON_parse (Some t) =
     (case JSON_parse t of None \<Rightarrow> Inl MalformedResponse | Some v \<Rightarrow> Inr v)"

subsection \<open>Template literals\<close>

definition digit_char :: "nat \<Rightarrow> char" where
  "digit_char n = char_of (48 + n)"

fun show_nat :: "nat \<Rightarrow> string" where
  "show_nat n = (if n < 10 then [digit_char n] else show_nat (n div 10) @ [digit_char (n mod 10)])"

declare show_nat.simps [simp del]

text \<open>An integer interpolated into a template literal.\<close>

definition show_int :: "int \<Rightarrow> string" where
  "show_int i = (if i < 0 then ''-'' @ show_nat (nat (- i)) else show_nat (nat i))"

definition show_bool :: "bool \<Rightarrow> string" where
  "show_bool b = (if b then ''true'' else ''false'')"

text \<open>An optional string interpolated into a template literal.\<close>

fun show_opt :: "string option \<Rightarrow> string" where
  "show_opt None = ''undefined''"
| "show_opt (Some s) = s"

text \<open>An optional string used as a condition: undefined and the empty string are falsy.\<close>

fun truthy :: "string option \<Rightarrow> bool" where
  "truthy None = False"
| "truthy (Some s) = (s \<noteq> [])"

subsection \<open>Assessment agent\<close>

definition quizSchema :: Schema where
  "quizSchema =
     OBJECT
       [(''questionText'', STRING),
        (''options'', ARRAY STRING),
        (''correctOptionIndex'', INTEGER),
        (''explanation'', STRING),
        (''difficulty'', STRING_enum [''easy'', ''medium'', ''hard'']),
        (''topic'', STRING)]
       [''questionText'', ''options'', ''correctOptionIndex'', ''explanation'', ''difficulty'',
        ''topic'']"

text \<open>Line 32 of the service: the difficulty requested for a mastery value.\<close>

definition requested_difficulty :: "int \<Rightarrow> Difficulty" where
  "requested_difficulty previousMastery =
     (if previousMastery > 70 then hard else if previousMastery > 40 then medium else easy)"

fun difficulty_name :: "Difficulty \<Rightarrow> string" where
  "difficulty_name easy = ''easy''"
| "difficulty_name medium = ''medium''"
| "difficulty_name hard = ''hard''"

text \<open>The request that \<^verbatim>\<open>generateAssessment\<close> builds.\<close>

definition assessment_request :: "string \<Rightarrow> string \<Rightarrow> int \<Rightarrow> string option \<Rightarrow> GenRequest" where
  "assessment_request topic' grade previousMastery courseContext =
     (let difficulty' = requested_difficulty previousMastery;
          contextStr =
            (if truthy courseContext
             then ''Context: '' @ show_opt courseContext @ '' (National Curriculum).''
             else [])
      in \<lparr>model = ''gemini-2.5-flash'',
          contents =
            ''Create a single multiple-choice question for a Grade '' @ grade @
            '' student about \"'' @ topic' @ ''\".\<newline>    '' @ contextStr @
            ''\<newline>    The difficulty should be '' @ difficulty_name difficulty' @
            ''.\<newline>    Ensure the question is strictly aligned with the specified curriculum context if provided.'' @
            ''\<newline>    Provide 4 options.'',
          responseMimeType = ''application/json'',
          responseSchema = Some quizSchema,
          systemInstruction =
            Some ''You are the Assessment Agent. Your goal is to diagnose student gaps accurately based on the local curriculum.''\<rparr>)"

definition generateAssessment ::
  "Service \<Rightarrow> (string \<Rightarrow> 'a option) \<Rightarrow> string \<Rightarrow> string \<Rightarrow> int \<Rightarrow> string option \<Rightarrow>
     GenRequest list \<Rightarrow> (GwError + 'a) \<times> GenRequest list" where
  "generateAssessment ai JSON_parse topic' grade previousMastery courseContext wire =
     (case generateContent ai (assessment_request topic' grade previousMastery courseContext) wire of
        (Rejected, wire') \<Rightarrow> (Inl TransportFailure, wire')
      | (Resolved text, wire') \<Rightarrow>
          if no_text text then (Inl (EmptyResponse ''No response from Assessment Agent''), wire')
          else (parse_reply JSON_parse text, wire'))"

subsection \<open>Adaptation agent\<close>

definition adapt_request :: "bool \<Rightarrow> int \<Rightarrow> string \<Rightarrow> GenRequest" where
  "adapt_request isCorrect currentMastery topic' =
     \<lparr>model = ''gemini-2.5-flash'',
      contents =
        ''The student just answered a question about \"'' @ topic' @ ''\".\<newline>    Result: '' @
        (if isCorrect then ''Correct'' else ''Incorrect'') @
        ''.\<newline>    Current Mastery Estimate: '' @ show_int currentMastery @
        ''%.\<newline>    \<newline>    Decide the next step:'' @
        ''\<newline>    - If incorrect or low mastery, recommend 'content' (learning material).'' @
        ''\<newline>    - If correct and high mastery, recommend another 'quiz' (harder) or 'content' (advanced).'' @
        ''\<newline>    \<newline>    Return JSON: { \"nextAction\": \"quiz\" | \"content\", \"reasoning\": \"string\", \"suggestedFocus\": \"string\" }'',
      responseMimeType = ''application/json'',
      responseSchema = None,
      systemInstruction = None\<rparr>"

definition adaptPath ::
  "Service \<Rightarrow> (string \<Rightarrow> 'a option) \<Rightarrow> bool \<Rightarrow> int \<Rightarrow> string \<Rightarrow>
     GenRequest list \<Rightarrow> (GwError + 'a) \<times> GenRequest list" where
  "adaptPath ai JSON_parse isCorrect currentMastery topic' wire =
     (case generateContent ai (adapt_request isCorrect currentMastery topic') wire of
        (Rejected, wire') \<Rightarrow> (Inl TransportFailure, wire')
      | (Resolved text, wire') \<Rightarrow>
          if no_text text then (Inl (EmptyResponse ''No response from Adaptation Agent''), wire')
          else (parse_reply JSON_parse text, wire'))"

subsection \<open>Content curator\<close>

definition contentSchema :: Schema where
  "contentSchema =
     OBJECT
       [(''title'', STRING),
        (''content'', STRING),
        (''readingLevel'', STRING),
        (''sourceAttribution'', STRING),
        (''languageMode'', STRING_enum [''english'', ''urdu_mix''])]
       [''title'', ''content'', ''readingLevel'', ''sourceAttribution'', ''languageMode'']"

definition curate_request :: "string \<Rightarrow> string \<Rightarrow> string \<Rightarrow> string option \<Rightarrow> GenRequest" where
  "curate_request topic' grade focusArea courseContext =
     (let contextStr =
            (if truthy courseContext
             then ''Source Material: '' @ show_opt courseContext @ '' (National Curriculum).''
             else ''Source Material: General National Curriculum.'')
      in \<lparr>model = ''gemini-2.5-flash'',
          contents =
            ''Provide a short educational passage (max 150 words) about \"'' @ topic' @
            ''\", specifically focusing on \"'' @ focusArea @ ''\".\<newline>    Target Grade: '' @
            grade @ ''.\<newline>    '' @ contextStr @
            ''\<newline>    Align with Pakistan National Curriculum (SNC) or Punjab Textbook standards.'' @
            ''\<newline>    The content should be in English but simple to understand.'',
          responseMimeType = ''application/json'',
          responseSchema = Some contentSchema,
          systemInstruction =
            Some ''You are the Content Curator Agent. You source high-quality, relevant educational text based on specific curriculum documents.''\<rparr>)"

definition curateContent ::
  "Service \<Rightarrow> (string \<Rightarrow> 'a option) \<Rightarrow> string \<Rightarrow> string \<Rightarrow> string \<Rightarrow> string option \<Rightarrow>
     GenRequest list \<Rightarrow> (GwError + 'a) \<times> GenRequest list" where
  "curateContent ai JSON_parse topic' grade focusArea courseContext wire =
     (case generateContent ai (curate_request topic' grade focusArea courseContext) wire of
        (Rejected, wire') \<Rightarrow> (Inl TransportFailure, wire')
      | (Resolved text, wire') \<Rightarrow>
          if no_text text then (Inl (EmptyResponse ''No response from Curator Agent''), wire')
          else (parse_reply JSON_parse text, wire'))"

subsection \<open>Language bridge\<close>

text \<open>The second parameter of \<^verbatim>\<open>bridgeLanguage\<close> has the one-value type \<^verbatim>\<open>'urdu_mix'\<close> and is unused.\<close>

definition bridge_request :: "LearningMaterial \<Rightarrow> GenRequest" where
  "bridge_request material =
     \<lparr>model = ''gemini-2.5-flash'',
      contents =
        ''Rewrite the following educational content using Urdu-English Code Switching (Roman Urdu + English technical terms) to make it accessible for a bilingual student in Pakistan.'' @
        ''\<newline>    \<newline>    Title: '' @ title material @
        ''\<newline>    Content: '' @ content material @
        ''\<newline>    \<newline>    Keep the same JSON structure.'',
      responseMimeType = ''application/json'',
      responseSchema = Some contentSchema,
      systemInstruction =
        Some ''You are the Language Bridge Agent. You help students who speak Urdu at home but study Science/Math in English. Use clear Roman Urdu for explanations but keep keywords in English.''\<rparr>"

definition bridgeLanguage ::
  "Service \<Rightarrow> (string \<Rightarrow> 'a option) \<Rightarrow> LearningMaterial \<Rightarrow> LanguageMode \<Rightarrow>
     GenRequest list \<Rightarrow> (GwError + 'a) \<times> GenRequest list" where
  "bridgeLanguage ai JSON_parse material targetLanguage wire =
     (case generateContent ai (bridge_request material) wire of
        (Rejected, wire') \<Rightarrow> (Inl TransportFailure, wire')
      | (Resolved text, wire') \<Rightarrow>
          if no_text text then (Inl (EmptyResponse ''No response from Language Bridge Agent''), wire')
          else (parse_reply JSON_parse text, wire'))"

subsection \<open>Safety policy\<close>

text \<open>
  The verdict \<^verbatim>\<open>{ safe: boolean; reason?: string }\<close>. On a response without text the source
  returns the literal \<^verbatim>\<open>{ safe: true }\<close>; otherwise whatever \<^verbatim>\<open>JSON.parse\<close> yields, here
  read at the declared type.
\<close>

record SafetyVerdict =
  safe :: bool
  reason :: "string option"

definition safety_request :: "string \<Rightarrow> GenRequest" where
  "safety_request content' =
     \<lparr>model = ''gemini-2.5-flash'',
      contents =
        ''Analyze this content: \"'' @ take 500 content' @ ''...\".'' @
        ''\<newline>    Is this content safe for a minor student and relevant to an educational context?'' @
        ''\<newline>    Return JSON: { \"safe\": boolean, \"reason\": string }'',
      responseMimeType = ''application/json'',
      responseSchema = None,
      systemInstruction = None\<rparr>"

definition safetyCheck ::
  "Service \<Rightarrow> (string \<Rightarrow> SafetyVerdict option) \<Rightarrow> string \<Rightarrow>
     GenRequest list \<Rightarrow> (GwError + SafetyVerdict) \<times> GenRequest list" where
  "safetyCheck ai JSON_parse content' wire =
     (case generateContent ai (safety_request content') wire of
        (Rejected, wire') \<Rightarrow> (Inl TransportFailure, wire')
      | (Resolved text, wire') \<Rightarrow>
          if no_text text then (Inr \<lparr>safe = True, reason = None\<rparr>, wire')
          else (parse_reply JSON_parse text, wire'))"

section \<open>The orchestrator (App.tsx)\<close>

subsection \<open>Environment and component state\<close>

text \<open>The plan that \<^verbatim>\<open>adaptPath\<close> is declared to return.\<close>

record Plan =
  nextAction :: QuizOrContent
  reasoning :: string
  suggestedFocus :: string

text \<open>
  Everything outside the program: the service, \<^verbatim>\<open>JSON.parse\<close> read at the type each call
  site declares, the clock (\<^verbatim>\<open>Date.now()\<close>) and the random identifiers (\<^verbatim>\<open>genId()\<close>). The
  last two are indexed by a counter (\<open>ticks\<close> below) that advances with every dispatch
  and every identifier drawn, so successive readings may differ. \<^verbatim>\<open>console.error\<close> has
  no effect on the state and is left out.
\<close>

record Env =
  ai :: Service
  parse_quiz :: "string \<Rightarrow> QuizQuestion option"
  parse_plan :: "string \<Rightarrow> Plan option"
  parse_material :: "string \<Rightarrow> LearningMaterial option"
  parse_verdict :: "string \<Rightarrow> SafetyVerdict option"
  Date_now :: "nat \<Rightarrow> nat"
  genId :: "nat \<Rightarrow> string"

text \<open>
  What a handler closure keeps of the render that created it: the reducer state and the
  current question of that render.
\<close>

record Render =
  r_state :: AppState
  r_question :: "QuizQuestion option"

text \<open>
  The state of the \<^verbatim>\<open>App\<close> component: the reducer state and the five \<^verbatim>\<open>useState\<close> cells,
  together with the wire, the counter of clock and identifier readings, and the pending
  timers of the quiz card: each holds the render whose \<^verbatim>\<open>onAnswer\<close> it will call and the
  option index, in the order in which they will fire.
\<close>

record App =
  state :: AppState
  currentQuestion :: "QuizQuestion option"
  currentContent :: "LearningMaterial option"
  topicInput :: string
  selectedSource :: string
  selectedCourse :: string
  wire :: "GenRequest list"
  ticks :: nat
  timers :: "(Render \<times> int) list"

definition initialApp :: App where
  "initialApp =
     \<lparr>state = initialState, currentQuestion = None, currentContent = None, topicInput = [],
      selectedSource = [], selectedCourse = [], wire = [], ticks = 0, timers = []\<rparr>"

definition render_of :: "App \<Rightarrow> Render" where
  "render_of a = \<lparr>r_state = state a, r_question = currentQuestion a\<rparr>"

text \<open>
  \<^verbatim>\<open>dispatch\<close> applies the reducer to the live state. A handler keeps reading the
  \<^verbatim>\<open>state\<close> and \<^verbatim>\<open>currentQuestion\<close> of the render that created it: those reads are taken
  from that render (the parameters \<open>render\<close> and \<open>snap\<close>, or the component state at the
  start of a handler that a click calls at once), never from the live state.
\<close>

definition dispatch :: "Env \<Rightarrow> Action \<Rightarrow> App \<Rightarrow> App" where
  "dispatch env act a =
     a\<lparr>state := appReducer (Date_now env (ticks a)) (state a) act, ticks := Suc (ticks a)\<rparr>"

definition logAgent :: "Env \<Rightarrow> AgentType \<Rightarrow> string \<Rightarrow> string \<Rightarrow> App \<Rightarrow> App" where
  "logAgent env agent' action' details' a =
     dispatch env
       (ADD_LOG \<lparr>log_id = genId env (ticks a), log_timestamp = Date_now env (ticks a),
                 agent = agent', action = action', details = details', status = success\<rparr>)
       a"

text \<open>
  How a handler ended: it returned at its guard (\<open>Skipped\<close>), ran to its end
  (\<open>Completed\<close>), or a gateway call threw and a \<^verbatim>\<open>catch\<close> block ran (\<open>Aborted\<close>).
\<close>

datatype Outcome = Skipped | Completed | Aborted GwError

subsection \<open>Assessment cycle\<close>

definition runAssessmentCycle ::
  "Env \<Rightarrow> string \<Rightarrow> string \<Rightarrow> int \<Rightarrow> string option \<Rightarrow> App \<Rightarrow> Outcome \<times> App" where
  "runAssessmentCycle env topic' grade mastery courseContext a0 =
     (let a1 = dispatch env (SET_LOADING True) a0;
          a2 = logAgent env ASSESSMENT ''Generating Quiz''
                 (''Aligning with '' @ show_opt courseContext @ ''...'') a1
      in case generateAssessment (ai env) (parse_quiz env) topic' grade mastery courseContext
                (wire a2) of
           (Inr quiz', w) \<Rightarrow>
             let a3 = logAgent env ASSESSMENT ''Quiz Ready''
                        (''Question ID: '' @ genId env (ticks a2) @ '' - Difficulty: '' @
                         difficulty_name (difficulty quiz'))
                        (a2\<lparr>wire := w, ticks := Suc (ticks a2)\<rparr>);
                 a4 = a3\<lparr>currentQuestion := Some quiz'\<rparr>
             in (Completed, dispatch env (SET_CURRENT_QUESTION quiz') a4)
         | (Inl e, w) \<Rightarrow>
             let a3 = logAgent env SYSTEM ''Error'' ''Failed to generate assessment.''
                        (a2\<lparr>wire := w\<rparr>)
             in (Aborted e, dispatch env (SET_LOADING False) a3))"

subsection \<open>Content cycle: curator, safety, language\<close>

definition runContentCycle ::
  "Env \<Rightarrow> string \<Rightarrow> string \<Rightarrow> string \<Rightarrow> string \<Rightarrow> App \<Rightarrow> Outcome \<times> App" where
  "runContentCycle env topic' grade focus courseContext a0 =
     (let a1 = logAgent env CURATOR ''Sourcing Content''
                 (''Searching '' @ courseContext @ '' for '' @ [CHR 0x27] @ focus @ [CHR 0x27] @
                  ''...'') a0
      in case curateContent (ai env) (parse_material env) topic' grade focus (Some courseContext)
                (wire a1) of
           (Inl e, w) \<Rightarrow> (Aborted e, dispatch env (SET_LOADING False) (a1\<lparr>wire := w\<rparr>))
         | (Inr rawContent, w) \<Rightarrow>
             (let a2 = logAgent env CURATOR ''Content Found''
                         (''Retrieved passage: \"'' @ title rawContent @ ''\"'') (a1\<lparr>wire := w\<rparr>);
                  a3 = logAgent env SAFETY ''Filtering''
                         ''Checking content safety and relevance...'' a2
              in (case safetyCheck (ai env) (parse_verdict env) (content rawContent) (wire a3) of
                    (Inl e, w) \<Rightarrow>
                      (Aborted e, dispatch env (SET_LOADING False) (a3\<lparr>wire := w\<rparr>))
                  | (Inr safety, w) \<Rightarrow>
                      (let a4 = (if \<not> safe safety
                                 then logAgent env SAFETY ''Blocked''
                                        (''Content flagged: '' @ show_opt (reason safety) @
                                         ''. Rerouting...'') (a3\<lparr>wire := w\<rparr>)
                                 else logAgent env SAFETY ''Verified'' ''Content is safe.''
                                        (a3\<lparr>wire := w\<rparr>));
                           a5 = logAgent env LANGUAGE ''Localizing''
                                  ''Translating to Roman Urdu/English mix for better comprehension...''
                                  a4
                       in (case bridgeLanguage (ai env) (parse_material env) rawContent urdu_mix
                                  (wire a5) of
                             (Inl e, w) \<Rightarrow>
                               (Aborted e, dispatch env (SET_LOADING False) (a5\<lparr>wire := w\<rparr>))
                           | (Inr localizedContent, w) \<Rightarrow>
                               (let a6 = logAgent env LANGUAGE ''Ready''
                                           ''Content localized and formatted.'' (a5\<lparr>wire := w\<rparr>);
                                    a7 = a6\<lparr>currentContent := Some localizedContent\<rparr>
                                in (Completed,
                                    dispatch env (SET_CURRENT_CONTENT localizedContent) a7)))))))"

subsection \<open>Adaptation cycle\<close>

fun toUpperCase :: "QuizOrContent \<Rightarrow> string" where
  "toUpperCase quiz = ''QUIZ''"
| "toUpperCase content_type = ''CONTENT''"

text \<open>\<^verbatim>\<open>state.session?.gradeLevel || "9"\<close>, read from the handler's render.\<close>

definition gradeLevel_or_9 :: "AppState \<Rightarrow> string" where
  "gradeLevel_or_9 snap =
     (case session snap of
        None \<Rightarrow> ''9''
      | Some s \<Rightarrow> if gradeLevel s = [] then ''9'' else gradeLevel s)"

definition runAdaptationCycle ::
  "Env \<Rightarrow> AppState \<Rightarrow> bool \<Rightarrow> int \<Rightarrow> string \<Rightarrow> string \<Rightarrow> App \<Rightarrow> Outcome \<times> App" where
  "runAdaptationCycle env snap lastCorrect mastery topic' courseContext a0 =
     (let a1 = dispatch env (SET_LOADING True) a0;
          a2 = a1\<lparr>currentQuestion := None\<rparr>;
          a3 = logAgent env ADAPTATION ''Analyzing Path''
                 (''Analyzing result. Mastery: '' @ show_int mastery @
                  ''%. Deciding next step...'') a2
      in case adaptPath (ai env) (parse_plan env) lastCorrect mastery topic' (wire a3) of
           (Inl e, w) \<Rightarrow> (Aborted e, dispatch env (SET_LOADING False) (a3\<lparr>wire := w\<rparr>))
         | (Inr plan, w) \<Rightarrow>
             let a4 = logAgent env ADAPTATION ''Path Updated''
                        (''Decision: '' @ toUpperCase (nextAction plan) @ ''. Reason: '' @
                         reasoning plan) (a3\<lparr>wire := w\<rparr>)
             in if nextAction plan = quiz
                then runAssessmentCycle env topic' (gradeLevel_or_9 snap) mastery
                       (Some courseContext) a4
                else runContentCycle env topic' (gradeLevel_or_9 snap) (suggestedFocus plan)
                       courseContext a4)"

subsection \<open>Handlers\<close>

text \<open>
  \<^verbatim>\<open>handleAnswer\<close> of the render \<open>render\<close>, running on the live state \<open>a0\<close>: its guard, the
  question, the mastery and the course name come from the render.
\<close>

definition handleAnswer :: "Env \<Rightarrow> Render \<Rightarrow> int \<Rightarrow> App \<Rightarrow> Outcome \<times> App" where
  "handleAnswer env render index a0 =
     (case (r_question render, session (r_state render)) of
        (Some q, Some sess) \<Rightarrow>
          let isCorrect = (index = correctOptionIndex q);
              a1 = logAgent env SYSTEM ''User Input''
                     (''Student selected option '' @ show_int index @ ''. Correct: '' @
                      show_bool isCorrect) a0;
              a2 = dispatch env (RECORD_ANSWER q isCorrect) a1
          in runAdaptationCycle env (r_state render) isCorrect (masteryScore sess) (quiz_topic q)
               (courseName sess) a2
      | _ \<Rightarrow> (Skipped, a0))"

text \<open>
  \<^verbatim>\<open>handleSelect\<close> of the quiz card (components/QuizCard.tsx): unless the card is disabled
  (its \<^verbatim>\<open>disabled\<close> property is the loading flag), it schedules \<^verbatim>\<open>onAnswer(idx)\<close> of the
  current render, 600 ms later; the timer is never cancelled. The card's own
  \<^verbatim>\<open>selected\<close> cell only highlights the option and is left out.
\<close>

definition handleSelect :: "int \<Rightarrow> App \<Rightarrow> App" where
  "handleSelect idx a =
     (if isLoading (state a) then a else a\<lparr>timers := timers a @ [(render_of a, idx)]\<rparr>)"

text \<open>The oldest pending timer fires: \<^verbatim>\<open>onAnswer(idx)\<close> of its render runs.\<close>

definition timerFires :: "Env \<Rightarrow> App \<Rightarrow> Outcome \<times> App" where
  "timerFires env a =
     (case timers a of
        [] \<Rightarrow> (Skipped, a)
      | (render, idx) # rest \<Rightarrow> handleAnswer env render idx (a\<lparr>timers := rest\<rparr>))"

definition handleContentNext :: "Env \<Rightarrow> App \<Rightarrow> Outcome \<times> App" where
  "handleContentNext env a0 =
     (let a1 = a0\<lparr>currentContent := None\<rparr>
      in case session (state a0) of
           Some sess \<Rightarrow>
             runAssessmentCycle env (topic sess) (gradeLevel sess) (masteryScore sess)
               (Some (courseName sess)) a1
         | None \<Rightarrow> (Skipped, a1))"

text \<open>
  White space as \<^verbatim>\<open>\s\<close> and \<^verbatim>\<open>trim\<close> see it, among the characters below 256: tab to
  carriage return, space, no-break space.
\<close>

definition is_space :: "char \<Rightarrow> bool" where
  "is_space c = (let n = (of_char c :: nat) in (9 \<le> n \<and> n \<le> 13) \<or> n = 32 \<or> n = 160)"

definition trim :: "string \<Rightarrow> string" where
  "trim s = rev (dropWhile is_space (rev (dropWhile is_space s)))"

text \<open>
  \<^verbatim>\<open>selectedCourse.match(/(?:Grades?|Class)[-\s]+([IVX]+|[0-9]+)/i)\<close>: the first capture
  group of the leftmost match, if any.
\<close>

definition lower :: "char \<Rightarrow> char" where
  "lower c = (let n = (of_char c :: nat) in if 65 \<le> n \<and> n \<le> 90 then char_of (n + 32) else c)"

fun match_ci :: "string \<Rightarrow> string \<Rightarrow> string option" where
  "match_ci [] s = Some s"
| "match_ci (l # ls) [] = None"
| "match_ci (l # ls) (c # cs) = (if lower c = l then match_ci ls cs else None)"

definition is_sep :: "char \<Rightarrow> bool" where
  "is_sep c = (c = CHR ''-'' \<or> is_space c)"

definition is_ivx :: "char \<Rightarrow> bool" where
  "is_ivx c = (lower c = CHR ''i'' \<or> lower c = CHR ''v'' \<or> lower c = CHR ''x'')"

definition is_digit :: "char \<Rightarrow> bool" where
  "is_digit c = (let n = (of_char c :: nat) in 48 \<le> n \<and> n \<le> 57)"

definition grade_group :: "string \<Rightarrow> string option" where
  "grade_group s =
     (if takeWhile is_ivx s \<noteq> [] then Some (takeWhile is_ivx s)
      else if takeWhile is_digit s \<noteq> [] then Some (takeWhile is_digit s)
      else None)"

definition sep_group :: "string \<Rightarrow> string option" where
  "sep_group s = (if takeWhile is_sep s = [] then None else grade_group (dropWhile is_sep s))"

definition grade_at :: "string \<Rightarrow> string option" where
  "grade_at s =
     (case match_ci ''grade'' s of
        Some r \<Rightarrow>
          (case (case r of [] \<Rightarrow> None
                 | c # cs \<Rightarrow> (if lower c = CHR ''s'' then sep_group cs else None)) of
             Some g \<Rightarrow> Some g
           | None \<Rightarrow> sep_group r)
      | None \<Rightarrow> (case match_ci ''class'' s of Some r \<Rightarrow> sep_group r | None \<Rightarrow> None))"

fun gradeMatch :: "string \<Rightarrow> string option" where
  "gradeMatch [] = None"
| "gradeMatch (c # cs) =
     (case grade_at (c # cs) of Some g \<Rightarrow> Some g | None \<Rightarrow> gradeMatch cs)"

definition handleStart :: "Env \<Rightarrow> App \<Rightarrow> Outcome \<times> App" where
  "handleStart env a0 =
     (if trim (topicInput a0) = [] \<or> selectedCourse a0 = [] then (Skipped, a0)
      else
        let grade = (case gradeMatch (selectedCourse a0) of Some g \<Rightarrow> g | None \<Rightarrow> ''9'');
            fullContext = selectedSource a0 @ '': '' @ selectedCourse a0;
            a1 = dispatch env (START_SESSION (topicInput a0) grade fullContext) a0;
            a2 = logAgent env SYSTEM ''Initialization''
                   (''Session started: '' @ fullContext @ '' - '' @ topicInput a0) a1
        in runAssessmentCycle env (topicInput a0) grade 0 (Some fullContext) a2)"

subsection \<open>Offline pack export\<close>

text \<open>
  \<^verbatim>\<open>packData\<close> as \<^verbatim>\<open>downloadPack\<close> builds it, and the name of the downloaded file. The
  timestamp is the clock reading (its ISO formatting is left out).
\<close>

record PackData =
  pack_timestamp :: nat
  course :: string
  studentLevel :: string
  pack_topic :: string
  materials :: "HistoryData list"
  reviewQuizzes :: "HistoryData list"
  pack_logs :: "AgentLog list"

text \<open>\<^verbatim>\<open>replace(/\s+/g, '-')\<close>: every maximal run of white space becomes one hyphen.\<close>

function replace_ws :: "string \<Rightarrow> string" where
  "replace_ws [] = []"
| "replace_ws (c # cs) =
     (if is_space c then CHR ''-'' # replace_ws (dropWhile is_space cs) else c # replace_ws cs)"
  by pat_completeness auto
termination
  by (relation "measure length") (auto simp: length_dropWhile_le less_Suc_eq_le)

definition downloadPack :: "Env \<Rightarrow> App \<Rightarrow> (PackData \<times> string) option \<times> App" where
  "downloadPack env a0 =
     (case session (state a0) of
        None \<Rightarrow> (None, a0)
      | Some sess \<Rightarrow>
          let packData =
                \<lparr>pack_timestamp = Date_now env (ticks a0),
                 course = courseName sess,
                 studentLevel = gradeLevel sess,
                 pack_topic = topic sess,
                 materials = map h_data (filter (\<lambda>h. h_type h = content_type) (history sess)),
                 reviewQuizzes = map h_data (filter (\<lambda>h. h_type h = quiz) (history sess)),
                 pack_logs = logs (state a0)\<rparr>;
              download = ''learning-pack-'' @ replace_ws (topic sess) @ ''.json''
          in (Some (packData, download),
              logAgent env SYSTEM ''Offline Export'' ''Generated 1-day learning pack.''
                (a0\<lparr>ticks := Suc (ticks a0)\<rparr>)))"

subsection \<open>What the rendered screen offers\<close>

text \<open>
  The events and the conditions under which each can happen. For the user's events these
  are the render conditions of the JSX under which the control is on the screen: the start
  form while the step is idle (its button disabled without a course or a topic), the quiz
  card and the content card when nothing is loading, the export button once a session
  exists, the bandwidth toggle always. A click on an option only schedules the answer;
  \<open>AnswerTimer\<close> is the firing of the oldest pending timer, which can happen whenever one
  is pending, whatever the screen shows by then.
\<close>

datatype Event =
    TypeTopic string
  | SelectSource string
  | SelectCourse string
  | ClickStart
  | ClickOption int
  | AnswerTimer
  | ClickContinue
  | ClickExport
  | ClickBandwidth

text \<open>The render condition of the quiz card.\<close>

definition card_on_screen :: "App \<Rightarrow> bool" where
  "card_on_screen a =
     (\<not> isLoading (state a) \<and> currentStep (state a) = assessing \<and> currentQuestion a \<noteq> None)"

fun enabled :: "Event \<Rightarrow> App \<Rightarrow> bool" where
  "enabled (TypeTopic t) a = (currentStep (state a) = idle)"
| "enabled (SelectSource s) a = (currentStep (state a) = idle)"
| "enabled (SelectCourse c) a = (currentStep (state a) = idle \<and> selectedSource a \<noteq> [])"
| "enabled ClickStart a =
     (currentStep (state a) = idle \<and> selectedCourse a \<noteq> [] \<and> topicInput a \<noteq> [])"
| "enabled (ClickOption i) a = card_on_screen a"
| "enabled AnswerTimer a = (timers a \<noteq> [])"
| "enabled ClickContinue a =
     (\<not> isLoading (state a) \<and> currentStep (state a) = learning \<and> currentContent a \<noteq> None)"
| "enabled ClickExport a = (session (state a) \<noteq> None)"
| "enabled ClickBandwidth a = True"

fun fire :: "Env \<Rightarrow> Event \<Rightarrow> App \<Rightarrow> Outcome \<times> App" where
  "fire env (TypeTopic t) a = (Completed, a\<lparr>topicInput := t\<rparr>)"
| "fire env (SelectSource s) a = (Completed, a\<lparr>selectedSource := s, selectedCourse := []\<rparr>)"
| "fire env (SelectCourse c) a = (Completed, a\<lparr>selectedCourse := c\<rparr>)"
| "fire env ClickStart a = handleStart env a"
| "fire env (ClickOption i) a = (Completed, handleSelect i a)"
| "fire env AnswerTimer a = timerFires env a"
| "fire env ClickContinue a = handleContentNext env a"
| "fire env ClickExport a = (Completed, snd (downloadPack env a))"
| "fire env ClickBandwidth a = (Completed, dispatch env TOGGLE_BANDWIDTH a)"

text \<open>
  A run of the application: each event comes with the environment that answers it; an
  event that cannot happen in the state it meets does nothing. Handlers run one after the
  other: an event that arrives while a handler awaits the service is taken when that
  handler has ended.
\<close>

fun run :: "(Env \<times> Event) list \<Rightarrow> App \<Rightarrow> App" where
  "run [] a = a"
| "run ((env, ev) # rest) a = run rest (if enabled ev a then snd (fire env ev a) else a)"

text \<open>
  The three transitions of the session state machine: start, answer (the deferred call of
  \<^verbatim>\<open>handleAnswer\<close>) and continue.
\<close>

fun is_transition :: "Event \<Rightarrow> bool" where
  "is_transition ClickStart = True"
| "is_transition AnswerTimer = True"
| "is_transition ClickContinue = True"
| "is_transition _ = False"

text \<open>A click on an option and the firing of the oldest pending timer, nothing between.\<close>

definition answer :: "Env \<Rightarrow> int \<Rightarrow> App \<Rightarrow> Outcome \<times> App" where
  "answer env i a = timerFires env (handleSelect i a)"

section \<open>A concrete environment\<close>

text \<open>
  A small service for evaluating the model on concrete runs. It recognises the five
  prompts by their first letter and answers with a short key; the parsers map the keys to
  fixed values. \<open>demo_env\<close> takes the plan the adaptation agent answers with and the
  verdict of the safety agent.
\<close>

definition demo_quiz :: QuizQuestion where
  "demo_quiz =
     \<lparr>quiz_id = None, questionText = ''2 + 2 = ?'', options = [''3'', ''4'', ''5'', ''6''],
      correctOptionIndex = 1, explanation = ''Addition.'', difficulty = easy,
      quiz_topic = ''Algebra''\<rparr>"

definition demo_raw :: LearningMaterial where
  "demo_raw =
     \<lparr>title = ''Sums'', content = ''Adding numbers.'', readingLevel = ''Grade 9'',
      sourceAttribution = ''Punjab Curriculum Grade 9'', languageMode = english\<rparr>"

definition demo_localized :: LearningMaterial where
  "demo_localized =
     \<lparr>title = ''Jama'', content = ''Numbers ko add karna.'', readingLevel = ''Grade 9'',
      sourceAttribution = ''Punjab Curriculum Grade 9'', languageMode = urdu_mix\<rparr>"

definition demo_ai :: Service where
  "demo_ai wire' req =
     (case contents req of
        [] \<Rightarrow> Rejected
      | c # cs \<Rightarrow>
          if c = CHR ''C'' then Resolved (Some ''q'')
          else if c = CHR ''T'' then Resolved (Some ''p'')
          else if c = CHR ''P'' then Resolved (Some ''raw'')
          else if c = CHR ''R'' then Resolved (Some ''loc'')
          else if c = CHR ''A'' then Resolved (Some ''v'')
          else Rejected)"

definition demo_env :: "QuizOrContent \<Rightarrow> SafetyVerdict \<Rightarrow> Env" where
  "demo_env next' verdict =
     \<lparr>ai = demo_ai,
      parse_quiz = (\<lambda>t. if t = ''q'' then Some demo_quiz else None),
      parse_plan = (\<lambda>t. if t = ''p''
                          then Some \<lparr>nextAction = next', reasoning = ''r'', suggestedFocus = ''f''\<rparr>
                          else None),
      parse_material = (\<lambda>t. if t = ''raw'' then Some demo_raw
                              else if t = ''loc'' then Some demo_localized else None),
      parse_verdict = (\<lambda>t. if t = ''v'' then Some verdict else None),
      Date_now = (\<lambda>n. 1000 + n),
      genId = (\<lambda>n. show_nat n)\<rparr>"

definition verdict_safe :: SafetyVerdict where
  "verdict_safe = \<lparr>safe = True, reason = None\<rparr>"

definition verdict_unsafe :: SafetyVerdict where
  "verdict_unsafe = \<lparr>safe = False, reason = Some ''off-topic''\<rparr>"

text \<open>The user fills the start form: board, course, topic.\<close>

definition fill_form :: "(Env \<times> Event) list" where
  "fill_form =
     [(demo_env quiz verdict_safe, SelectSource ''Punjab Board''),
      (demo_env quiz verdict_safe, SelectCourse ''Grade IX Mathematics''),
      (demo_env quiz verdict_safe, TypeTopic ''Algebra'')]"

text \<open>A quiz screen: a running session at mastery \<open>m\<close> with \<open>demo_quiz\<close> on display.\<close>

definition quiz_screen :: "int \<Rightarrow> App" where
  "quiz_screen m =
     \<lparr>state =
        \<lparr>isOfflineMode = False, isLowBandwidth = False, currentStep = assessing, logs = [],
         session = Some \<lparr>topic = ''Algebra'', courseName = ''Punjab Board: Grade IX Mathematics'',
                          gradeLevel = ''IX'', masteryScore = m, history = []\<rparr>,
         isLoading = False\<rparr>,
      currentQuestion = Some demo_quiz, currentContent = None, topicInput = ''Algebra'',
      selectedSource = ''Punjab Board'', selectedCourse = ''Grade IX Mathematics'', wire = [],
      ticks = 0, timers = []\<rparr>"

section \<open>Invariant of the screen\<close>

text \<open>
  Whenever a material is current, no question is, and the session has left the idle step;
  in the idle step no question is current.
\<close>

definition screen_inv :: "App \<Rightarrow> bool" where
  "screen_inv a =
     ((case currentContent a of
         None \<Rightarrow> True
       | Some m \<Rightarrow> currentQuestion a = None \<and> currentStep (state a) \<noteq> idle)
      \<and> (if currentStep (state a) = idle then currentQuestion a = None else True))"

text \<open>
  A run in which every deferred answer call runs while the question card is still on the
  screen: no timer fires after its card has gone.
\<close>

fun orderly :: "(Env \<times> Event) list \<Rightarrow> App \<Rightarrow> bool" where
  "orderly [] a = True"
| "orderly ((env, ev) # rest) a =
     ((if ev = AnswerTimer \<and> timers a \<noteq> [] then card_on_screen a else True)
      \<and> orderly rest (if enabled ev a then snd (fire env ev a) else a))"

section \<open>Invariant of the history\<close>

text \<open>
  No handler ever appends a history entry of type content: the reducer appends to the
  history in its \<^verbatim>\<open>RECORD_ANSWER\<close> branch only, with type quiz.
\<close>

definition quiz_only :: "App \<Rightarrow> bool" where
  "quiz_only a =
     (case session (state a) of
        None \<Rightarrow> True
      | Some sess \<Rightarrow> list_all (\<lambda>h. h_type h = quiz) (history sess))"

section \<open>Concrete inputs\<close>

text \<open>A service that answers every request with the same text, and one that rejects.\<close>

definition answering :: "string option \<Rightarrow> Service" where
  "answering t wire' req = Resolved t"

definition rejecting :: Service where
  "rejecting wire' req = Rejected"

text \<open>A \<^verbatim>\<open>JSON.parse\<close> that yields the given value for every text.\<close>

definition parsing_to :: "'a \<Rightarrow> string \<Rightarrow> 'a option" where
  "parsing_to v t = Some v"

text \<open>Parsed JSON as it is at run time, before any TypeScript type is read into it.\<close>

datatype JSON =
    JNull
  | JBoolean bool
  | JNumber int
  | JString string
  | JArray "JSON list"
  | JObject "(string \<times> JSON) list"

text \<open>A plan object without \<^verbatim>\<open>nextAction\<close>.\<close>

definition plan_without_nextAction :: JSON where
  "plan_without_nextAction =
     JObject [(''reasoning'', JString ''unsure''), (''suggestedFocus'', JString ''sums'')]"

text \<open>A question object without \<^verbatim>\<open>explanation\<close> and with a string for the index.\<close>

definition quiz_missing_field :: JSON where
  "quiz_missing_field =
     JObject [(''questionText'', JString ''2 + 2 = ?''),
              (''options'', JArray [JString ''3'', JString ''4'']),
              (''correctOptionIndex'', JString ''one''),
              (''difficulty'', JString ''easy''),
              (''topic'', JString ''Algebra'')]"

text \<open>A question with three options and a correct index outside them.\<close>

definition short_quiz :: QuizQuestion where
  "short_quiz =
     \<lparr>quiz_id = None, questionText = ''2 + 2 = ?'', options = [''3'', ''4'', ''5''],
      correctOptionIndex = 7, explanation = ''Addition.'', difficulty = easy,
      quiz_topic = ''Algebra''\<rparr>"

text \<open>The demo environment with a service that rejects every request.\<close>

definition offline_env :: Env where
  "offline_env = (demo_env quiz verdict_safe)\<lparr>ai := rejecting\<rparr>"

text \<open>
  The demo environment whose service answers the adaptation and assessment prompts but
  rejects the three prompts of the content cycle.
\<close>

definition no_content_ai :: Service where
  "no_content_ai wire' req =
     (case contents req of
        [] \<Rightarrow> Rejected
      | c # cs \<Rightarrow>
          if c = CHR ''C'' then Resolved (Some ''q'')
          else if c = CHR ''T'' then Resolved (Some ''p'')
          else Rejected)"

definition no_content_env :: Env where
  "no_content_env = (demo_env content_type verdict_safe)\<lparr>ai := no_content_ai\<rparr>"

text \<open>A session started on Algebra: the first question is on the screen.\<close>

definition started :: App where
  "started = run (fill_form @ [(demo_env quiz verdict_safe, ClickStart)]) initialApp"

text \<open>
  A session started on Algebra and two questions answered correctly, the adaptation agent
  choosing another quiz each time.
\<close>

definition two_correct :: App where
  "two_correct =
     run (fill_form @
          [(demo_env quiz verdict_safe, ClickStart),
           (demo_env quiz verdict_safe, ClickOption 1),
           (demo_env quiz verdict_safe, AnswerTimer),
           (demo_env quiz verdict_safe, ClickOption 1),
           (demo_env quiz verdict_safe, AnswerTimer)])
       initialApp"

text \<open>
  A session with two quiz attempts and one content exposure: start, a correct answer that
  the adaptation agent follows with content, continue, a wrong answer followed by a quiz.
\<close>

definition two_quizzes_one_content :: App where
  "two_quizzes_one_content =
     run (fill_form @
          [(demo_env quiz verdict_safe, ClickStart),
           (demo_env content_type verdict_safe, ClickOption 1),
           (demo_env content_type verdict_safe, AnswerTimer),
           (demo_env quiz verdict_safe, ClickContinue),
           (demo_env quiz verdict_safe, ClickOption 2),
           (demo_env quiz verdict_safe, AnswerTimer)])
       initialApp"

text \<open>
  The first question answered, the adaptation agent choosing content: the localized
  material is on the screen.
\<close>

definition content_shown :: App where
  "content_shown = snd (answer (demo_env content_type verdict_safe) 1 started)"

text \<open>
  Two clicks on the first question's card within the 600 ms before the first deferred
  call runs. The first call is followed by content, the second by a quiz.
\<close>

definition double_click :: App where
  "double_click =
     run [(demo_env quiz verdict_safe, ClickOption 1),
          (demo_env quiz verdict_safe, ClickOption 1),
          (demo_env content_type verdict_safe, AnswerTimer),
          (demo_env quiz verdict_safe, AnswerTimer)]
       started"

text \<open>The two cells and the loading flag.\<close>

definition cells :: "App \<Rightarrow> QuizQuestion option \<times> LearningMaterial option \<times> bool" where
  "cells a = (currentQuestion a, currentContent a, isLoading (state a))"

text \<open>Response texts, and a \<^verbatim>\<open>JSON.parse\<close> that reads one given text as one given value.\<close>

definition short_quiz_text :: string where
  "short_quiz_text =
     ''{\"questionText\":\"2 + 2 = ?\",\"options\":[\"3\",\"4\",\"5\"],\"correctOptionIndex\":7,\"explanation\":\"Addition.\",\"difficulty\":\"easy\",\"topic\":\"Algebra\"}''"

definition quiz_missing_field_text :: string where
  "quiz_missing_field_text =
     ''{\"questionText\":\"2 + 2 = ?\",\"options\":[\"3\",\"4\"],\"correctOptionIndex\":\"one\",\"difficulty\":\"easy\",\"topic\":\"Algebra\"}''"

definition plan_without_nextAction_text :: string where
  "plan_without_nextAction_text = ''{\"reasoning\":\"unsure\",\"suggestedFocus\":\"sums\"}''"

definition reads :: "string \<Rightarrow> 'a \<Rightarrow> string \<Rightarrow> 'a option" where
  "reads text v t = (if t = text then Some v else None)"

text \<open>The trace as the agent, action and status of its entries.\<close>

definition trace_of :: "App \<Rightarrow> (AgentType \<times> string \<times> LogStatus) list" where
  "trace_of a = map (\<lambda>l. (agent l, action l, status l)) (logs (state a))"

section \<open>Frame lemmas\<close>

lemma session_dispatch:
  "(\<forall>t g c. act \<noteq> START_SESSION t g c) \<Longrightarrow> (\<forall>q b. act \<noteq> RECORD_ANSWER q b) \<Longrightarrow>
   session (state (dispatch env act a)) = session (state a)"
  by (cases act) (auto simp: dispatch_def)

lemma dispatch_cells [simp]:
  "currentQuestion (dispatch env act a) = currentQuestion a"
  "currentContent (dispatch env act a) = currentContent a"
  "wire (dispatch env act a) = wire a"
  "topicInput (dispatch env act a) = topicInput a"
  "selectedSource (dispatch env act a) = selectedSource a"
  "selectedCourse (dispatch env act a) = selectedCourse a"
  "timers (dispatch env act a) = timers a"
  by (simp_all add: dispatch_def)

lemma logAgent_cells [simp]:
  "currentQuestion (logAgent env g ac d a) = currentQuestion a"
  "currentContent (logAgent env g ac d a) = currentContent a"
  "wire (logAgent env g ac d a) = wire a"
  "topicInput (logAgent env g ac d a) = topicInput a"
  "selectedSource (logAgent env g ac d a) = selectedSource a"
  "selectedCourse (logAgent env g ac d a) = selectedCourse a"
  "timers (logAgent env g ac d a) = timers a"
  by (simp_all add: logAgent_def)

lemma logAgent_state [simp]:
  "session (state (logAgent env g ac d a)) = session (state a)"
  "currentStep (state (logAgent env g ac d a)) = currentStep (state a)"
  "isLoading (state (logAgent env g ac d a)) = isLoading (state a)"
  "logs (state (logAgent env g ac d a)) =
     logs (state a) @ [\<lparr>log_id = genId env (ticks a), log_timestamp = Date_now env (ticks a),
                         agent = g, action = ac, details = d, status = success\<rparr>]"
  by (simp_all add: logAgent_def dispatch_def)

lemma dispatch_loading [simp]:
  "session (state (dispatch env (SET_LOADING b) a)) = session (state a)"
  "currentStep (state (dispatch env (SET_LOADING b) a)) = currentStep (state a)"
  "isLoading (state (dispatch env (SET_LOADING b) a)) = b"
  "logs (state (dispatch env (SET_LOADING b) a)) = logs (state a)"
  by (simp_all add: dispatch_def)

lemma dispatch_question [simp]:
  "session (state (dispatch env (SET_CURRENT_QUESTION q) a)) = session (state a)"
  "currentStep (state (dispatch env (SET_CURRENT_QUESTION q) a)) = assessing"
  "isLoading (state (dispatch env (SET_CURRENT_QUESTION q) a)) = False"
  "logs (state (dispatch env (SET_CURRENT_QUESTION q) a)) = logs (state a)"
  by (simp_all add: dispatch_def)

lemma dispatch_content [simp]:
  "session (state (dispatch env (SET_CURRENT_CONTENT m) a)) = session (state a)"
  "currentStep (state (dispatch env (SET_CURRENT_CONTENT m) a)) = learning"
  "isLoading (state (dispatch env (SET_CURRENT_CONTENT m) a)) = False"
  "logs (state (dispatch env (SET_CURRENT_CONTENT m) a)) = logs (state a)"
  by (simp_all add: dispatch_def)

lemma dispatch_record [simp]:
  "currentStep (state (dispatch env (RECORD_ANSWER q b) a)) = currentStep (state a)"
  "isLoading (state (dispatch env (RECORD_ANSWER q b) a)) = isLoading (state a)"
  "logs (state (dispatch env (RECORD_ANSWER q b) a)) = logs (state a)"
  by (simp_all add: dispatch_def Let_def split: option.splits)

text \<open>No cycle touches the session: only the reducer's two session actions do.\<close>

lemma runAssessmentCycle_session:
  "session (state (snd (runAssessmentCycle env t g m c a))) = session (state a)"
  by (simp add: runAssessmentCycle_def Let_def split: prod.splits sum.splits)

lemma runContentCycle_session:
  "session (state (snd (runContentCycle env t g f c a))) = session (state a)"
  by (simp add: runContentCycle_def Let_def split: prod.splits sum.splits)

lemma runAdaptationCycle_session:
  "session (state (snd (runAdaptationCycle env snap l m t c a))) = session (state a)"
  by (simp add: runAdaptationCycle_def Let_def runAssessmentCycle_session runContentCycle_session
      split: prod.splits sum.splits)

section \<open>Mastery update\<close>

text \<open>
  C1. For every mastery value m in [0,100] and every answer, the mastery score after
  recording the answer is min(100, m+20) if the chosen option index equals the question's
  correctOptionIndex and max(0, m-10) otherwise, and it is again within [0,100]. Stated
  for the whole of \<^verbatim>\<open>handleAnswer\<close>, whatever the gateway answers afterwards: the handler
  of any render with a question and a session, running on a live session of mastery m.
\<close>

theorem record_answer_mastery:
  assumes "r_question r = Some q" and "session (r_state r) = Some rsess"
    and "session (state a) = Some sess"
    and "0 \<le> masteryScore sess" and "masteryScore sess \<le> 100"
  shows "\<exists>sess'. session (state (snd (handleAnswer env r index a))) = Some sess'
           \<and> masteryScore sess' =
               (if index = correctOptionIndex q then min 100 (masteryScore sess + 20)
                else max 0 (masteryScore sess - 10))
           \<and> 0 \<le> masteryScore sess' \<and> masteryScore sess' \<le> 100"
  using assms
  by (simp add: handleAnswer_def Let_def runAdaptationCycle_session dispatch_def logAgent_def)

text \<open>From mastery 0, the correct option (index 1 of \<open>demo_quiz\<close>) gives mastery 20.\<close>

theorem record_answer_mastery_witness:
  "r_question (render_of (quiz_screen 0)) = Some demo_quiz
   \<and> (\<exists>sess. session (state (quiz_screen 0)) = Some sess \<and> masteryScore sess = 0)
   \<and> (\<exists>sess'. session (state (snd (handleAnswer (demo_env quiz verdict_safe)
                   (render_of (quiz_screen 0)) 1 (quiz_screen 0))))
                 = Some sess' \<and> masteryScore sess' = 20)"
  using record_answer_mastery [of "render_of (quiz_screen 0)" demo_quiz
      "\<lparr>topic = ''Algebra'', courseName = ''Punjab Board: Grade IX Mathematics'',
        gradeLevel = ''IX'', masteryScore = 0, history = []\<rparr>"
      "quiz_screen 0"
      "\<lparr>topic = ''Algebra'', courseName = ''Punjab Board: Grade IX Mathematics'',
        gradeLevel = ''IX'', masteryScore = 0, history = []\<rparr>"
      "demo_env quiz verdict_safe" 1]
  by (auto simp: quiz_screen_def demo_quiz_def render_of_def)

text \<open>Scenario B: one correct answer from mastery 0 gives 20, a further incorrect one 10.\<close>

lemma scenario_B:
  "map_option masteryScore
     (session (appReducer t1 (state (quiz_screen 0)) (RECORD_ANSWER q True))) = Some 20"
  "map_option masteryScore
     (session (appReducer t2 (appReducer t1 (state (quiz_screen 0)) (RECORD_ANSWER q True))
        (RECORD_ANSWER q' False))) = Some 10"
  by (simp_all add: quiz_screen_def)

section \<open>The reducer's frame\<close>

text \<open>
  C10. For every reducer state and every action other than START_SESSION and
  RECORD_ANSWER (ADD_LOG, SET_LOADING, SET_CURRENT_QUESTION, SET_CURRENT_CONTENT,
  TOGGLE_BANDWIDTH, TOGGLE_OFFLINE_MODE and an unrecognized action), the session of the
  resulting state, with its topic, course name, grade level, mastery score and history,
  is the session of the state before.
\<close>

theorem appReducer_session_frame:
  assumes "\<forall>t g c. act \<noteq> START_SESSION t g c" and "\<forall>q b. act \<noteq> RECORD_ANSWER q b"
  shows "session (appReducer now s act) = session s"
  using assms by (cases act) auto

theorem appReducer_session_frame_witness:
  "session (appReducer 7 (state (quiz_screen 40)) (SET_CURRENT_CONTENT demo_raw))
     = session (state (quiz_screen 40))
   \<and> session (appReducer 7 (state (quiz_screen 40)) UNRECOGNIZED)
     = session (state (quiz_screen 40))"
  using appReducer_session_frame [of "SET_CURRENT_CONTENT demo_raw" 7 "state (quiz_screen 40)"]
    appReducer_session_frame [of UNRECOGNIZED 7 "state (quiz_screen 40)"]
  by simp

section \<open>Requested difficulty\<close>

text \<open>
  C4. For every prior mastery, generateAssessment requests difficulty hard if and only if
  the mastery is above 70, medium if and only if it is above 40 and at most 70, and easy
  if and only if it is at most 40; so 70 gives medium, 40 gives easy and 0 gives easy. The
  one request it sends carries the prompt below, whose difficulty sentence says hard,
  medium or easy by these thresholds.
\<close>

theorem requested_difficulty_thresholds:
  "(requested_difficulty m = hard \<longleftrightarrow> m > 70)
   \<and> (requested_difficulty m = medium \<longleftrightarrow> 40 < m \<and> m \<le> 70)
   \<and> (requested_difficulty m = easy \<longleftrightarrow> m \<le> 40)
   \<and> requested_difficulty 70 = medium
   \<and> requested_difficulty 40 = easy
   \<and> requested_difficulty 0 = easy
   \<and> snd (generateAssessment ai' parse topic' grade m ctx wire')
       = wire' @ [assessment_request topic' grade m ctx]
   \<and> contents (assessment_request topic' grade m ctx)
       = ''Create a single multiple-choice question for a Grade '' @ grade @
         '' student about \"'' @ topic' @ ''\".\<newline>    '' @
         (if truthy ctx then ''Context: '' @ show_opt ctx @ '' (National Curriculum).'' else []) @
         ''\<newline>    '' @
         (if m > 70 then ''The difficulty should be hard.''
          else if m > 40 then ''The difficulty should be medium.''
          else ''The difficulty should be easy.'') @
         ''\<newline>    Ensure the question is strictly aligned with the specified curriculum context if provided.'' @
         ''\<newline>    Provide 4 options.''
   \<and> contents (assessment_request ''Algebra'' ''9'' 0 None)
       = ''Create a single multiple-choice question for a Grade 9 student about \"Algebra\".\<newline>    \<newline>    The difficulty should be easy.\<newline>    Ensure the question is strictly aligned with the specified curriculum context if provided.\<newline>    Provide 4 options.''"
proof -
  have sent: "snd (generateAssessment ai' parse topic' grade m ctx wire')
      = wire' @ [assessment_request topic' grade m ctx]"
    by (simp add: generateAssessment_def generateContent_def split: Reply.splits)
  have prompt: "contents (assessment_request topic' grade m ctx)
       = ''Create a single multiple-choice question for a Grade '' @ grade @
         '' student about \"'' @ topic' @ ''\".\<newline>    '' @
         (if truthy ctx then ''Context: '' @ show_opt ctx @ '' (National Curriculum).'' else []) @
         ''\<newline>    '' @
         (if m > 70 then ''The difficulty should be hard.''
          else if m > 40 then ''The difficulty should be medium.''
          else ''The difficulty should be easy.'') @
         ''\<newline>    Ensure the question is strictly aligned with the specified curriculum context if provided.'' @
         ''\<newline>    Provide 4 options.''"
    by (simp add: assessment_request_def requested_difficulty_def Let_def)
  have at0: "contents (assessment_request ''Algebra'' ''9'' 0 None)
       = ''Create a single multiple-choice question for a Grade 9 student about \"Algebra\".\<newline>    \<newline>    The difficulty should be easy.\<newline>    Ensure the question is strictly aligned with the specified curriculum context if provided.\<newline>    Provide 4 options.''"
    by (simp add: assessment_request_def requested_difficulty_def Let_def)
  have thresholds: "(requested_difficulty m = hard \<longleftrightarrow> m > 70)
      \<and> (requested_difficulty m = medium \<longleftrightarrow> 40 < m \<and> m \<le> 70)
      \<and> (requested_difficulty m = easy \<longleftrightarrow> m \<le> 40)
      \<and> requested_difficulty 70 = medium
      \<and> requested_difficulty 40 = easy
      \<and> requested_difficulty 0 = easy"
    by (simp add: requested_difficulty_def)
  from thresholds sent prompt at0 show ?thesis
    by blast
qed

section \<open>Safety check on an empty response\<close>

text \<open>
  C8. For every input, safetyCheck returns the verdict safe = true when the service answers
  without text (no text at all, or the empty string): it neither fails nor returns
  safe = false.
\<close>

theorem safetyCheck_fail_open:
  assumes "ai' wire' (safety_request c) = Resolved t" and "no_text t"
  shows "fst (safetyCheck ai' parse c wire') = Inr \<lparr>safe = True, reason = None\<rparr>"
  using assms by (simp add: safetyCheck_def generateContent_def)

theorem safetyCheck_fail_open_witness:
  "(\<lambda>w r. Resolved (Some [])) [] (safety_request ''Adding numbers.'') = Resolved (Some [])
   \<and> no_text (Some [])
   \<and> fst (safetyCheck (\<lambda>w r. Resolved (Some [])) (\<lambda>t. None) ''Adding numbers.'' [])
       = Inr \<lparr>safe = True, reason = None\<rparr>"
  using safetyCheck_fail_open [of "\<lambda>w r. Resolved (Some [])" "[]" "''Adding numbers.''" "Some []"
      "\<lambda>t. None"]
  by simp

section \<open>Question and material on the screen\<close>

text \<open>What each cycle leaves in the two cells and in the step, by the way it ended.\<close>

lemma runAssessmentCycle_cells:
  assumes "runAssessmentCycle env t g m c a = (out, a')"
  shows "currentContent a' = currentContent a \<and> timers a' = timers a \<and>
         (case out of
            Completed \<Rightarrow> currentQuestion a' \<noteq> None \<and> currentStep (state a') = assessing
          | Aborted e \<Rightarrow> currentQuestion a' = currentQuestion a \<and>
                         currentStep (state a') = currentStep (state a)
          | Skipped \<Rightarrow> False)"
  using assms
  by (auto simp: runAssessmentCycle_def Let_def split: prod.splits sum.splits)

lemma runContentCycle_cells:
  assumes "runContentCycle env t g f c a = (out, a')"
  shows "currentQuestion a' = currentQuestion a \<and> timers a' = timers a \<and>
         (case out of
            Completed \<Rightarrow> currentContent a' \<noteq> None \<and> currentStep (state a') = learning
          | Aborted e \<Rightarrow> currentContent a' = currentContent a \<and>
                         currentStep (state a') = currentStep (state a)
          | Skipped \<Rightarrow> False)"
  using assms
  by (auto simp: runContentCycle_def Let_def split: prod.splits sum.splits if_splits)

lemma runAdaptationCycle_cells:
  assumes "runAdaptationCycle env snap l m t c a = (out, a')"
  shows "timers a' = timers a \<and>
         (case out of
            Completed \<Rightarrow>
              (currentQuestion a' \<noteq> None \<and> currentContent a' = currentContent a \<and>
               currentStep (state a') = assessing) \<or>
              (currentQuestion a' = None \<and> currentContent a' \<noteq> None \<and>
               currentStep (state a') = learning)
          | Aborted e \<Rightarrow> currentQuestion a' = None \<and> currentContent a' = currentContent a \<and>
                         currentStep (state a') = currentStep (state a)
          | Skipped \<Rightarrow> False)"
  using assms
  by (auto simp: runAdaptationCycle_def Let_def
      split: prod.splits sum.splits if_splits Outcome.splits
      dest!: runAssessmentCycle_cells runContentCycle_cells)

lemma handleStart_cells:
  assumes "handleStart env a = (out, a')"
  shows "currentContent a' = currentContent a \<and> timers a' = timers a \<and>
         (case out of
            Completed \<Rightarrow> currentQuestion a' \<noteq> None \<and> currentStep (state a') = assessing
          | Aborted e \<Rightarrow> currentQuestion a' = currentQuestion a \<and>
                         currentStep (state a') = assessing
          | Skipped \<Rightarrow> a' = a)"
  using assms
  by (auto simp: handleStart_def Let_def dispatch_def logAgent_def split: if_splits Outcome.splits
      dest!: runAssessmentCycle_cells)

lemma handleContentNext_cells:
  assumes "handleContentNext env a = (out, a')"
  shows "currentContent a' = None \<and> timers a' = timers a \<and>
         (case out of
            Completed \<Rightarrow> currentQuestion a' \<noteq> None \<and> currentStep (state a') = assessing
          | Aborted e \<Rightarrow> currentQuestion a' = currentQuestion a \<and>
                         currentStep (state a') = currentStep (state a)
          | Skipped \<Rightarrow> currentQuestion a' = currentQuestion a \<and>
                       currentStep (state a') = currentStep (state a))"
  using assms
  by (auto simp: handleContentNext_def Let_def split: option.splits Outcome.splits
      dest!: runAssessmentCycle_cells)

lemma handleAnswer_cells:
  assumes "handleAnswer env r i a = (out, a')"
  shows "timers a' = timers a \<and>
         (case out of
            Completed \<Rightarrow>
              (currentQuestion a' \<noteq> None \<and> currentContent a' = currentContent a \<and>
               currentStep (state a') = assessing) \<or>
              (currentQuestion a' = None \<and> currentContent a' \<noteq> None \<and>
               currentStep (state a') = learning)
          | Aborted e \<Rightarrow> currentQuestion a' = None \<and> currentContent a' = currentContent a \<and>
                         currentStep (state a') = currentStep (state a)
          | Skipped \<Rightarrow> a' = a)"
  using assms
  by (auto simp: handleAnswer_def Let_def split: option.splits Outcome.splits
      dest!: runAdaptationCycle_cells)

lemma timerFires_cells:
  assumes "timerFires env a = (out, a')"
  shows "(case out of
            Completed \<Rightarrow>
              (currentQuestion a' \<noteq> None \<and> currentContent a' = currentContent a \<and>
               currentStep (state a') = assessing) \<or>
              (currentQuestion a' = None \<and> currentContent a' \<noteq> None \<and>
               currentStep (state a') = learning)
          | Aborted e \<Rightarrow> currentQuestion a' = None \<and> currentContent a' = currentContent a \<and>
                         currentStep (state a') = currentStep (state a)
          | Skipped \<Rightarrow> currentQuestion a' = currentQuestion a \<and>
                       currentContent a' = currentContent a \<and>
                       currentStep (state a') = currentStep (state a))"
proof (cases "timers a")
  case Nil
  with assms show ?thesis
    by (simp add: timerFires_def)
next
  case (Cons x rest)
  obtain r i where x: "x = (r, i)" by (cases x)
  with assms Cons have "handleAnswer env r i (a\<lparr>timers := rest\<rparr>) = (out, a')"
    by (simp add: timerFires_def)
  from handleAnswer_cells [OF this] show ?thesis
    by (cases out) auto
qed

text \<open>
  The invariant is kept by every event, provided that a timer fires only while the
  question card is on the screen.
\<close>

lemma screen_inv_fire:
  assumes "screen_inv a" and "enabled ev a"
    and "ev = AnswerTimer \<Longrightarrow> card_on_screen a"
  shows "screen_inv (snd (fire env ev a))"
proof (cases ev)
  case ClickStart
  obtain out a' where h: "handleStart env a = (out, a')"
    by (cases "handleStart env a")
  from assms ClickStart have "currentContent a = None"
    by (auto simp: screen_inv_def split: option.splits)
  with handleStart_cells [OF h] h ClickStart assms(1) show ?thesis
    by (cases out) (auto simp: screen_inv_def)
next
  case (ClickOption i)
  with assms show ?thesis
    by (auto simp: screen_inv_def handleSelect_def split: option.splits)
next
  case AnswerTimer
  obtain out a' where h: "timerFires env a = (out, a')"
    by (cases "timerFires env a")
  from assms AnswerTimer have c: "currentContent a = None" "currentStep (state a) = assessing"
    by (auto simp: screen_inv_def card_on_screen_def split: option.splits)
  with timerFires_cells [OF h] h AnswerTimer assms(1) show ?thesis
    by (cases out) (auto simp: screen_inv_def split: option.splits)
next
  case ClickContinue
  obtain out a' where h: "handleContentNext env a = (out, a')"
    by (cases "handleContentNext env a")
  from assms ClickContinue have "currentStep (state a) = learning"
    by simp
  with handleContentNext_cells [OF h] h ClickContinue assms(1) show ?thesis
    by (cases out) (auto simp: screen_inv_def)
next
  case ClickExport
  with assms show ?thesis
    by (simp add: screen_inv_def downloadPack_def Let_def split: option.splits)
next
  case ClickBandwidth
  with assms show ?thesis
    by (simp add: screen_inv_def dispatch_def split: option.splits)
qed (use assms in \<open>simp_all add: screen_inv_def split: option.splits\<close>)

lemma screen_inv_run: "screen_inv a \<Longrightarrow> orderly evs a \<Longrightarrow> screen_inv (run evs a)"
proof (induction evs arbitrary: a)
  case Nil
  then show ?case by simp
next
  case (Cons x evs)
  obtain env ev where x: "x = (env, ev)" by (cases x)
  show ?case
  proof (cases "enabled ev a")
    case True
    from Cons.prems x True have "ev = AnswerTimer \<Longrightarrow> card_on_screen a"
      by simp
    with Cons.prems(1) True have "screen_inv (snd (fire env ev a))"
      by (rule screen_inv_fire)
    with Cons.IH [of "snd (fire env ev a)"] Cons.prems(2) x True show ?thesis
      by simp
  next
    case False
    with Cons.IH [of a] Cons.prems x show ?thesis
      by simp
  qed
qed

lemma screen_inv_initial: "screen_inv initialApp"
  by (simp add: screen_inv_def initialApp_def initialState_def)

lemma orderly_append: "orderly (xs @ ys) a = (orderly xs a \<and> orderly ys (run xs a))"
  by (induction xs arbitrary: a) auto

text \<open>Events that are not transitions leave both cells as they are.\<close>

lemma other_event_cells:
  assumes "\<not> is_transition ev"
  shows "currentQuestion (snd (fire env ev a)) = currentQuestion a
       \<and> currentContent (snd (fire env ev a)) = currentContent a"
  using assms
  by (cases ev) (simp_all add: downloadPack_def handleSelect_def Let_def split: option.splits)

lemma other_events_cells:
  assumes "list_all (\<lambda>(env, ev). \<not> is_transition ev) evs"
  shows "currentQuestion (run evs a) = currentQuestion a
       \<and> currentContent (run evs a) = currentContent a"
  using assms
proof (induction evs arbitrary: a)
  case Nil
  then show ?case by simp
next
  case (Cons x evs)
  obtain env ev where x: "x = (env, ev)" by (cases x)
  with Cons.prems have "\<not> is_transition ev" and rest: "list_all (\<lambda>(env, ev). \<not> is_transition ev) evs"
    by simp_all
  from other_event_cells [OF this(1)] Cons.IH [OF rest] x show ?case
    by simp
qed

text \<open>
  C9 as the specification states it fails on the code, in both directions. With the
  first question on the screen, an answer whose adaptation request the service rejects
  leaves no question and no material, loading cleared; so does a continue whose
  assessment request is rejected. And two clicks on the first question's card, the first
  deferred call followed by content and the second by a quiz, leave a question and a
  material current together.
\<close>

theorem both_null_and_both_current:
  "cells (snd (answer offline_env 1 started)) = (None, None, False)
   \<and> cells (snd (fire offline_env ClickContinue content_shown)) = (None, None, False)
   \<and> cells double_click = (Some demo_quiz, Some demo_localized, False)"
  by code_simp

text \<open>
  C9, amended. Take a run in which every deferred answer call runs while its question
  card is still on the screen, and in it a start, an answer or a continue. If the
  transition runs to its end, then at every point after it, up to the next transition,
  exactly one of the current question and the current material is non-null. If a gateway
  failure aborts it, then both are null at those points. (Gateway results are read at
  their declared types; what a timer that fires after its card has gone leaves is not
  stated.)
\<close>

theorem exactly_one_current:
  assumes "orderly (evs @ [(env, ev)]) initialApp"
    and "a = run evs initialApp"
    and "enabled ev a" and "is_transition ev"
    and "fire env ev a = (out, a')"
    and "list_all (\<lambda>(env, ev). \<not> is_transition ev) later"
  shows "(out = Completed \<longrightarrow>
            (currentQuestion (run later a') = None) \<noteq> (currentContent (run later a') = None))
       \<and> ((\<exists>e. out = Aborted e) \<longrightarrow>
            currentQuestion (run later a') = None \<and> currentContent (run later a') = None)"
proof -
  from assms(1,2) have ord: "orderly evs initialApp"
    and fresh: "ev = AnswerTimer \<Longrightarrow> card_on_screen a"
    using assms(3) by (simp_all add: orderly_append)
  have inv: "screen_inv a"
    using assms(2) screen_inv_initial ord by (simp add: screen_inv_run)
  have "(out = Completed \<longrightarrow> (currentQuestion a' = None) \<noteq> (currentContent a' = None))
      \<and> ((\<exists>e. out = Aborted e) \<longrightarrow> currentQuestion a' = None \<and> currentContent a' = None)"
  proof (cases ev)
    case ClickStart
    with assms(5) have h: "handleStart env a = (out, a')" by simp
    from inv assms(3) ClickStart have "currentContent a = None" "currentQuestion a = None"
      by (auto simp: screen_inv_def split: option.splits)
    with handleStart_cells [OF h] show ?thesis by auto
  next
    case AnswerTimer
    with assms(5) have h: "timerFires env a = (out, a')" by simp
    from inv fresh AnswerTimer have "currentContent a = None"
      by (auto simp: screen_inv_def card_on_screen_def split: option.splits)
    with timerFires_cells [OF h] show ?thesis by auto
  next
    case ClickContinue
    with assms(5) have h: "handleContentNext env a = (out, a')" by simp
    from inv assms(3) ClickContinue have "currentQuestion a = None"
      by (auto simp: screen_inv_def split: option.splits)
    with handleContentNext_cells [OF h] show ?thesis by auto
  qed (use assms(4) in simp_all)
  with other_events_cells [OF assms(6)] show ?thesis
    by simp
qed

text \<open>
  The first question is answered and the adaptation agent chooses content: the transition
  completes and the material alone is current, also after the bandwidth toggle. When the
  service rejects the adaptation request instead, both cells are null.
\<close>

theorem exactly_one_current_witness:
  "orderly (fill_form @ [(demo_env quiz verdict_safe, ClickStart),
        (demo_env quiz verdict_safe, ClickOption 1),
        (demo_env content_type verdict_safe, AnswerTimer)]) initialApp
   \<and> enabled AnswerTimer (snd (fire (demo_env quiz verdict_safe) (ClickOption 1) started))
   \<and> fst (answer (demo_env content_type verdict_safe) 1 started) = Completed
   \<and> ((currentQuestion (run [(demo_env quiz verdict_safe, ClickBandwidth)]
          (snd (answer (demo_env content_type verdict_safe) 1 started))) = None)
      \<noteq> (currentContent (run [(demo_env quiz verdict_safe, ClickBandwidth)]
          (snd (answer (demo_env content_type verdict_safe) 1 started))) = None))
   \<and> fst (answer offline_env 1 started) = Aborted TransportFailure
   \<and> currentQuestion (snd (answer offline_env 1 started)) = None
   \<and> currentContent (snd (answer offline_env 1 started)) = None"
proof -
  let ?Q = "demo_env quiz verdict_safe"
  let ?C = "demo_env content_type verdict_safe"
  let ?evs = "fill_form @ [(?Q, ClickStart), (?Q, ClickOption 1)]"
  let ?a = "snd (fire ?Q (ClickOption 1) started)"
  have a: "?a = run ?evs initialApp"
    by code_simp
  have ord: "orderly (?evs @ [(?C, AnswerTimer)]) initialApp"
    by code_simp
  have ord': "orderly (?evs @ [(offline_env, AnswerTimer)]) initialApp"
    by code_simp
  have en: "enabled AnswerTimer ?a"
    by code_simp
  have out: "fst (answer ?C 1 started) = Completed"
    by code_simp
  have out': "fst (answer offline_env 1 started) = Aborted TransportFailure"
    by code_simp
  have f: "fire ?C AnswerTimer ?a = (Completed, snd (answer ?C 1 started))"
    using out by (simp add: answer_def prod_eq_iff)
  have f': "fire offline_env AnswerTimer ?a
      = (Aborted TransportFailure, snd (answer offline_env 1 started))"
    using out' by (simp add: answer_def prod_eq_iff)
  have lt: "list_all (\<lambda>(env, ev). \<not> is_transition ev) [(?Q, ClickBandwidth)]"
    by simp
  have lt': "list_all (\<lambda>(env, ev). \<not> is_transition ev) []"
    by simp
  from exactly_one_current [OF ord a en _ f lt] exactly_one_current [OF ord' a en _ f' lt']
    ord en out out'
  show ?thesis
    by simp
qed

section \<open>What the handlers send and record\<close>

text \<open>Every gateway function sends exactly one request, whatever comes back.\<close>

lemma generateAssessment_wire:
  "generateAssessment ai' p t g m c w = (r, w') \<Longrightarrow> w' = w @ [assessment_request t g m c]"
  by (auto simp: generateAssessment_def generateContent_def split: Reply.splits if_splits)

lemma adaptPath_wire:
  "adaptPath ai' p l m t w = (r, w') \<Longrightarrow> w' = w @ [adapt_request l m t]"
  by (auto simp: adaptPath_def generateContent_def split: Reply.splits if_splits)

lemma curateContent_wire:
  "curateContent ai' p t g f c w = (r, w') \<Longrightarrow> w' = w @ [curate_request t g f c]"
  by (auto simp: curateContent_def generateContent_def split: Reply.splits if_splits)

lemma safetyCheck_wire:
  "safetyCheck ai' p c w = (r, w') \<Longrightarrow> w' = w @ [safety_request c]"
  by (auto simp: safetyCheck_def generateContent_def split: Reply.splits if_splits)

lemma bridgeLanguage_wire:
  "bridgeLanguage ai' p m l w = (r, w') \<Longrightarrow> w' = w @ [bridge_request m]"
  by (auto simp: bridgeLanguage_def generateContent_def split: Reply.splits if_splits)

lemma runAssessmentCycle_wire:
  "wire (snd (runAssessmentCycle env t g m c a)) = wire a @ [assessment_request t g m c]"
  by (auto simp: runAssessmentCycle_def Let_def split: prod.splits sum.splits
      dest!: generateAssessment_wire)

lemma runContentCycle_wire:
  "\<exists>rest. wire (snd (runContentCycle env t g f c a)) = wire a @ rest"
  by (auto simp: runContentCycle_def Let_def split: prod.splits sum.splits
      dest!: curateContent_wire safetyCheck_wire bridgeLanguage_wire)

text \<open>
  The adaptation request that \<^verbatim>\<open>handleAnswer\<close> sends carries the mastery of the session
  as it was when the answer was given: \<^verbatim>\<open>state.session.masteryScore\<close> is read from the
  render that created the handler, and the dispatch before it does not change that value.
  On a quiz decision the assessment request carries the same value.
\<close>

lemma runAdaptationCycle_wire:
  "\<exists>rest. wire (snd (runAdaptationCycle env snap l m t c a)) = wire a @ adapt_request l m t # rest"
proof -
  obtain r w where r: "adaptPath (ai env) (parse_plan env) l m t (wire a) = (r, w)"
    by (cases "adaptPath (ai env) (parse_plan env) l m t (wire a)")
  then have w: "w = wire a @ [adapt_request l m t]"
    by (rule adaptPath_wire)
  show ?thesis
  proof (cases r)
    case (Inl e)
    with r w show ?thesis
      by (simp add: runAdaptationCycle_def Let_def)
  next
    case (Inr plan)
    show ?thesis
    proof (cases "nextAction plan = quiz")
      case True
      with r w Inr show ?thesis
        by (simp add: runAdaptationCycle_def Let_def runAssessmentCycle_wire)
    next
      case False
      let ?a4 = "logAgent env ADAPTATION ''Path Updated''
          (''Decision: '' @ toUpperCase (nextAction plan) @ ''. Reason: '' @ reasoning plan)
          ((logAgent env ADAPTATION ''Analyzing Path''
              (''Analyzing result. Mastery: '' @ show_int m @ ''%. Deciding next step...'')
              ((dispatch env (SET_LOADING True) a)\<lparr>currentQuestion := None\<rparr>))\<lparr>wire := w\<rparr>)"
      have eq: "runAdaptationCycle env snap l m t c a =
          runContentCycle env t (gradeLevel_or_9 snap) (suggestedFocus plan) c ?a4"
        using r Inr False by (simp add: runAdaptationCycle_def Let_def)
      obtain rest where "wire (snd (runContentCycle env t (gradeLevel_or_9 snap)
          (suggestedFocus plan) c ?a4)) = wire ?a4 @ rest"
        using runContentCycle_wire by blast
      moreover have "wire ?a4 = wire a @ [adapt_request l m t]"
        using w by simp
      ultimately show ?thesis
        using eq by simp
    qed
  qed
qed

lemma handleAnswer_sends_old_mastery:
  assumes "r_question r = Some q" and "session (r_state r) = Some sess"
  shows "\<exists>rest. wire (snd (handleAnswer env r i a)) =
           wire a @ adapt_request (i = correctOptionIndex q) (masteryScore sess) (quiz_topic q) # rest"
proof -
  let ?a2 = "dispatch env (RECORD_ANSWER q (i = correctOptionIndex q))
      (logAgent env SYSTEM ''User Input''
        (''Student selected option '' @ show_int i @ ''. Correct: '' @
         show_bool (i = correctOptionIndex q)) a)"
  have "handleAnswer env r i a =
      runAdaptationCycle env (r_state r) (i = correctOptionIndex q) (masteryScore sess)
        (quiz_topic q) (courseName sess) ?a2"
    using assms unfolding handleAnswer_def Let_def by simp
  moreover have "wire ?a2 = wire a" by simp
  ultimately show ?thesis
    using runAdaptationCycle_wire [of env "r_state r" "i = correctOptionIndex q" "masteryScore sess"
        "quiz_topic q" "courseName sess" ?a2]
    by simp
qed

text \<open>
  C3, evaluated on the code. The claim: when an answer is submitted the mastery delta is
  applied first, and the adaptation decision call and, on a quiz decision, the next
  question generation receive the updated mastery. On the code they receive the mastery
  from before the answer: after two correct answers the mastery is 40; a third correct
  answer makes it 60, while the adaptation request and the assessment request that follow
  are built for 40, so that the next question is requested easy where 60 asks for medium.
\<close>

theorem answer_requests_use_old_mastery:
  "map_option masteryScore (session (state two_correct)) = Some 40
   \<and> (case answer (demo_env quiz verdict_safe) 1 two_correct of
        (out, a') \<Rightarrow> (out, map_option masteryScore (session (state a')), drop 5 (wire a')))
     = (Completed, Some 60,
        [adapt_request True 40 ''Algebra'',
         assessment_request ''Algebra'' ''IX'' 40 (Some ''Punjab Board: Grade IX Mathematics'')])
   \<and> requested_difficulty 40 = easy
   \<and> requested_difficulty 60 = medium"
  by code_simp

section \<open>Offline pack export\<close>

text \<open>The pack holds the data of the history entries by type, and the whole trace log.\<close>

lemma downloadPack_fields:
  assumes "session (state a) = Some sess"
  shows "\<exists>p name. fst (downloadPack env a) = Some (p, name)
           \<and> materials p = map h_data (filter (\<lambda>h. h_type h = content_type) (history sess))
           \<and> reviewQuizzes p = map h_data (filter (\<lambda>h. h_type h = quiz) (history sess))
           \<and> pack_logs p = logs (state a)
           \<and> pack_topic p = topic sess \<and> course p = courseName sess
           \<and> studentLevel p = gradeLevel sess"
  using assms by (simp add: downloadPack_def Let_def)

lemma quiz_only_fire:
  assumes "quiz_only a"
  shows "quiz_only (snd (fire env ev a))"
proof (cases ev)
  case ClickStart
  with assms show ?thesis
    by (simp add: quiz_only_def handleStart_def Let_def runAssessmentCycle_session
        dispatch_def logAgent_def)
next
  case (ClickOption i)
  with assms show ?thesis
    by (simp add: quiz_only_def handleSelect_def)
next
  case AnswerTimer
  with assms show ?thesis
    by (auto simp: quiz_only_def timerFires_def handleAnswer_def Let_def
        runAdaptationCycle_session dispatch_def logAgent_def split: option.splits list.splits)
next
  case ClickContinue
  with assms show ?thesis
    by (auto simp: quiz_only_def handleContentNext_def Let_def runAssessmentCycle_session
        split: option.splits)
next
  case ClickExport
  with assms show ?thesis
    by (auto simp: quiz_only_def downloadPack_def Let_def split: option.splits)
next
  case ClickBandwidth
  with assms show ?thesis
    by (simp add: quiz_only_def dispatch_def)
qed (use assms in \<open>simp_all add: quiz_only_def\<close>)

lemma quiz_only_run: "quiz_only a \<Longrightarrow> quiz_only (run evs a)"
  by (induction evs arbitrary: a) (auto simp: quiz_only_fire)

lemma materials_always_empty:
  assumes "fst (downloadPack env (run evs initialApp)) = Some (p, name)"
  shows "materials p = []"
proof -
  have "quiz_only (run evs initialApp)"
    by (rule quiz_only_run) (simp add: quiz_only_def initialApp_def initialState_def)
  with assms show ?thesis
    by (auto simp: downloadPack_def Let_def quiz_only_def list_all_iff filter_empty_conv
        split: option.splits)
qed

text \<open>
  C2, evaluated on the code. The claim: the exported artifact's materials are the data of
  the history entries of type content, its reviewQuizzes those of type quiz, with the full
  trace log; so a session that underwent two quiz attempts and one content exposure exports
  two reviewQuizzes and one material. On the code the content exposure never enters the
  history: the session below has shown one material and taken two answers, and its pack
  has two reviewQuizzes and no material.
\<close>

theorem export_after_content_has_no_material:
  "(case downloadPack (demo_env quiz verdict_safe) two_quizzes_one_content of
      (pack, a') \<Rightarrow>
        (map action (logs (state a')),
         map_option (materials \<circ> fst) pack, map_option (reviewQuizzes \<circ> fst) pack))
     = ([''Initialization'', ''Generating Quiz'', ''Quiz Ready'', ''User Input'',
         ''Analyzing Path'', ''Path Updated'', ''Sourcing Content'', ''Content Found'',
         ''Filtering'', ''Verified'', ''Localizing'', ''Ready'', ''Generating Quiz'',
         ''Quiz Ready'', ''User Input'', ''Analyzing Path'', ''Path Updated'',
         ''Generating Quiz'', ''Quiz Ready'', ''Offline Export''],
        Some [], Some [QuizData demo_quiz, QuizData demo_quiz])"
  by code_simp

section \<open>Gateway failures during a transition\<close>

text \<open>
  A failure of quiz generation is caught in \<^verbatim>\<open>runAssessmentCycle\<close>: one System/Error
  entry follows the entry of the attempt, loading is cleared, the session is untouched.
\<close>

lemma runAssessmentCycle_failure:
  assumes "generateAssessment (ai env) (parse_quiz env) t g m c (wire a) = (Inl e, w)"
  shows "\<exists>a'. runAssessmentCycle env t g m c a = (Aborted e, a')
           \<and> map (\<lambda>l. (agent l, action l)) (logs (state a'))
               = map (\<lambda>l. (agent l, action l)) (logs (state a)) @
                 [(ASSESSMENT, ''Generating Quiz''), (SYSTEM, ''Error'')]
           \<and> \<not> isLoading (state a') \<and> session (state a') = session (state a)"
  using assms by (simp add: runAssessmentCycle_def Let_def)

text \<open>
  A failure of the adaptation decision is caught in \<^verbatim>\<open>runAdaptationCycle\<close>, whose
  \<^verbatim>\<open>catch\<close> block clears loading and logs nothing; the question has been cleared before
  the call.
\<close>

lemma runAdaptationCycle_failure:
  assumes "adaptPath (ai env) (parse_plan env) l m t (wire a) = (Inl e, w)"
  shows "\<exists>a'. runAdaptationCycle env snap l m t c a = (Aborted e, a')
           \<and> map (\<lambda>l. (agent l, action l)) (logs (state a'))
               = map (\<lambda>l. (agent l, action l)) (logs (state a)) @
                 [(ADAPTATION, ''Analyzing Path'')]
           \<and> \<not> isLoading (state a') \<and> session (state a') = session (state a)
           \<and> currentQuestion a' = None"
  using assms by (simp add: runAdaptationCycle_def Let_def)

text \<open>
  So an answer whose adaptation decision fails leaves neither a question nor a material
  current: the aborted transition does not return to the screen before it.
\<close>

lemma handleAnswer_adaptation_failure:
  assumes "r_question r = Some q" and "session (r_state r) = Some sess"
    and "currentContent a = None"
    and "adaptPath (ai env) (parse_plan env) (i = correctOptionIndex q) (masteryScore sess)
           (quiz_topic q) (wire a) = (Inl e, w)"
  shows "\<exists>a'. handleAnswer env r i a = (Aborted e, a')
           \<and> currentQuestion a' = None \<and> currentContent a' = None
           \<and> \<not> isLoading (state a')"
  using assms by (simp add: handleAnswer_def runAdaptationCycle_def Let_def)

text \<open>A failure in the content cycle is caught there; no entry of agent System is logged.\<close>

lemma runContentCycle_failure:
  assumes "runContentCycle env t g f c a = (Aborted e, a')"
  shows "\<not> isLoading (state a') \<and> session (state a') = session (state a)
         \<and> (\<exists>new. logs (state a') = logs (state a) @ new
                  \<and> list_all (\<lambda>l. agent l \<noteq> SYSTEM) new)"
  using assms
  by (auto simp: runContentCycle_def Let_def split: prod.splits sum.splits if_splits)

text \<open>
  C5, evaluated on the code. The claim: every gateway failure during a transition (quiz
  generation, adaptation decision, or the curate, safety, localize sequence) aborts the
  transition with exactly one trace entry of agent System and action Error appended, the
  loading flag cleared and the session unchanged. On the code only a failure of quiz
  generation is logged. With the first question on the screen (three entries in the trace)
  an answer is given: when the service rejects the adaptation request, the entries
  appended are User Input and Analyzing Path; when it rejects the curation request, they
  are User Input, Analyzing Path, Path Updated and Sourcing Content. Loading is cleared in
  both, and no System/Error entry is appended in either.
\<close>

theorem adaptation_and_content_failures_log_no_error:
  "(case answer offline_env 1 started of
      (out, a') \<Rightarrow>
        (out, map agent (drop 3 (logs (state a'))), map action (drop 3 (logs (state a'))),
         isLoading (state a')))
     = (Aborted TransportFailure, [SYSTEM, ADAPTATION], [''User Input'', ''Analyzing Path''],
        False)
   \<and> (case answer no_content_env 1 started of
      (out, a') \<Rightarrow>
        (out, map agent (drop 3 (logs (state a'))), map action (drop 3 (logs (state a'))),
         isLoading (state a')))
     = (Aborted TransportFailure, [SYSTEM, ADAPTATION, ADAPTATION, CURATOR],
        [''User Input'', ''Analyzing Path'', ''Path Updated'', ''Sourcing Content''], False)
   \<and> length (logs (state started)) = 3
   \<and> enabled (ClickOption 1) started"
  by code_simp

section \<open>The demo environment's answers\<close>

lemma demo_curate:
  "curateContent (ai (demo_env n v)) (parse_material (demo_env n v)) t g f c w
     = (Inr demo_raw, w @ [curate_request t g f c])"
  by (simp add: curateContent_def generateContent_def demo_env_def demo_ai_def
      curate_request_def Let_def)

lemma demo_safety:
  "safetyCheck (ai (demo_env n v)) (parse_verdict (demo_env n v)) c w
     = (Inr v, w @ [safety_request c])"
  by (simp add: safetyCheck_def generateContent_def demo_env_def demo_ai_def safety_request_def)

lemma demo_bridge:
  "bridgeLanguage (ai (demo_env n v)) (parse_material (demo_env n v)) m l w
     = (Inr demo_localized, w @ [bridge_request m])"
  by (simp add: bridgeLanguage_def generateContent_def demo_env_def demo_ai_def
      bridge_request_def)

section \<open>An unsafe verdict\<close>

text \<open>
  C7 as the specification states it fails on the code: with the first question on the
  screen, an answer is followed by a content decision and the safety agent answers
  safe = false. The localized material becomes current, and the trace holds the entry
  Safety/Blocked, but every entry, that one included, has status success: no entry with
  warning status is appended.
\<close>

theorem unsafe_verdict_logged_with_status_success:
  "currentContent (snd (answer (demo_env content_type verdict_unsafe) 1 started))
     = Some demo_localized
   \<and> trace_of (snd (answer (demo_env content_type verdict_unsafe) 1 started))
     = [(SYSTEM, ''Initialization'', success),
        (ASSESSMENT, ''Generating Quiz'', success),
        (ASSESSMENT, ''Quiz Ready'', success),
        (SYSTEM, ''User Input'', success),
        (ADAPTATION, ''Analyzing Path'', success),
        (ADAPTATION, ''Path Updated'', success),
        (CURATOR, ''Sourcing Content'', success),
        (CURATOR, ''Content Found'', success),
        (SAFETY, ''Filtering'', success),
        (SAFETY, ''Blocked'', success),
        (LANGUAGE, ''Localizing'', success),
        (LANGUAGE, ''Ready'', success)]"
  by code_simp

text \<open>
  C7, amended. When the safety check returns safe = false during the learning
  sub-sequence, the flow still proceeds to the localization of the curated material and
  the localized material is displayed: it becomes the current material, the step is
  learning and loading is cleared. Content is not blocked and nothing is queried again or
  substituted: exactly the curation, safety and localization requests are sent, the last
  one for the curated material. A trace entry of agent Safety and action Blocked is
  appended for the unsafe result; its status is success, as that of every entry the
  sequence appends.
\<close>

theorem unsafe_content_is_shown:
  assumes "curateContent (ai env) (parse_material env) t g f (Some c) (wire a) = (Inr raw, w1)"
    and "safetyCheck (ai env) (parse_verdict env) (content raw) w1 = (Inr v, w2)"
    and "\<not> safe v"
    and "bridgeLanguage (ai env) (parse_material env) raw urdu_mix w2 = (Inr loc, w3)"
  shows "\<exists>a'. runContentCycle env t g f c a = (Completed, a')
           \<and> currentContent a' = Some loc
           \<and> currentStep (state a') = learning \<and> \<not> isLoading (state a')
           \<and> wire a' = wire a @ [curate_request t g f (Some c), safety_request (content raw),
                                   bridge_request raw]
           \<and> trace_of a' = trace_of a @
               [(CURATOR, ''Sourcing Content'', success),
                (CURATOR, ''Content Found'', success),
                (SAFETY, ''Filtering'', success),
                (SAFETY, ''Blocked'', success),
                (LANGUAGE, ''Localizing'', success),
                (LANGUAGE, ''Ready'', success)]"
proof -
  have w1: "w1 = wire a @ [curate_request t g f (Some c)]"
    using assms(1) by (rule curateContent_wire)
  have w2: "w2 = w1 @ [safety_request (content raw)]"
    using assms(2) by (rule safetyCheck_wire)
  have w3: "w3 = w2 @ [bridge_request raw]"
    using assms(4) by (rule bridgeLanguage_wire)
  have c1: "curateContent (ai env) (parse_material env) t g f (Some c) (wire a)
      = (Inr raw, wire a @ [curate_request t g f (Some c)])"
    using assms(1) w1 by simp
  have c2: "safetyCheck (ai env) (parse_verdict env) (content raw)
        (wire a @ [curate_request t g f (Some c)])
      = (Inr v, wire a @ [curate_request t g f (Some c), safety_request (content raw)])"
    using assms(2) w1 w2 by simp
  have c3: "bridgeLanguage (ai env) (parse_material env) raw urdu_mix
        (wire a @ [curate_request t g f (Some c), safety_request (content raw)])
      = (Inr loc, wire a @ [curate_request t g f (Some c), safety_request (content raw),
           bridge_request raw])"
    using assms(4) w1 w2 w3 by simp
  show ?thesis
    using c1 c2 c3 assms(3)
    by (simp add: runContentCycle_def Let_def trace_of_def)
qed

theorem unsafe_content_is_shown_witness:
  "\<not> safe verdict_unsafe
   \<and> fst (runContentCycle (demo_env content_type verdict_unsafe) ''Algebra'' ''IX'' ''sums''
            ''Punjab Board: Grade IX Mathematics'' started) = Completed
   \<and> currentContent (snd (runContentCycle (demo_env content_type verdict_unsafe) ''Algebra''
            ''IX'' ''sums'' ''Punjab Board: Grade IX Mathematics'' started))
       = Some demo_localized"
  using unsafe_content_is_shown [of "demo_env content_type verdict_unsafe" "''Algebra''" "''IX''"
      "''sums''" "''Punjab Board: Grade IX Mathematics''" started demo_raw _ verdict_unsafe _
      demo_localized, OF demo_curate demo_safety _ demo_bridge]
  by (auto simp: verdict_unsafe_def)

section \<open>Empty and malformed responses\<close>

text \<open>
  C6 as the specification states it fails on the code. A response text that parses to a
  question with three options and correct index 7 is returned as the question, and so is
  one that lacks the explanation and has a string for the index; a plan without
  nextAction is returned as the plan; and safetyCheck, given no text, returns a verdict
  instead of failing with EmptyResponse.
\<close>

theorem gateway_returns_what_parses:
  "fst (generateAssessment (answering (Some short_quiz_text)) (reads short_quiz_text short_quiz)
          ''Algebra'' ''9'' 0 None [])
     = Inr short_quiz
   \<and> length (options short_quiz) = 3 \<and> correctOptionIndex short_quiz = 7
   \<and> fst (generateAssessment (answering (Some quiz_missing_field_text))
          (reads quiz_missing_field_text quiz_missing_field) ''Algebra'' ''9'' 0 None [])
     = Inr quiz_missing_field
   \<and> fst (adaptPath (answering (Some plan_without_nextAction_text))
          (reads plan_without_nextAction_text plan_without_nextAction) True 20 ''Algebra'' [])
     = Inr plan_without_nextAction
   \<and> fst (safetyCheck (answering None) (reads [] verdict_unsafe) ''Adding numbers.'' [])
     = Inr \<lparr>safe = True, reason = None\<rparr>"
  by (simp add: generateAssessment_def adaptPath_def safetyCheck_def generateContent_def
      answering_def reads_def short_quiz_def short_quiz_text_def quiz_missing_field_text_def
      plan_without_nextAction_text_def)

text \<open>Each operation, when the service answers its request with \<open>text\<close>.\<close>

lemma generateAssessment_resolved:
  assumes "ai' w (assessment_request t g m c) = Resolved text"
  shows "fst (generateAssessment ai' p t g m c w) =
           (if no_text text then Inl (EmptyResponse ''No response from Assessment Agent'')
            else parse_reply p text)"
  using assms by (simp add: generateAssessment_def generateContent_def)

lemma adaptPath_resolved:
  assumes "ai' w (adapt_request l m t) = Resolved text"
  shows "fst (adaptPath ai' p l m t w) =
           (if no_text text then Inl (EmptyResponse ''No response from Adaptation Agent'')
            else parse_reply p text)"
  using assms by (simp add: adaptPath_def generateContent_def)

lemma curateContent_resolved:
  assumes "ai' w (curate_request t g f c) = Resolved text"
  shows "fst (curateContent ai' p t g f c w) =
           (if no_text text then Inl (EmptyResponse ''No response from Curator Agent'')
            else parse_reply p text)"
  using assms by (simp add: curateContent_def generateContent_def)

lemma bridgeLanguage_resolved:
  assumes "ai' w (bridge_request mat) = Resolved text"
  shows "fst (bridgeLanguage ai' p mat lang w) =
           (if no_text text then Inl (EmptyResponse ''No response from Language Bridge Agent'')
            else parse_reply p text)"
  using assms by (simp add: bridgeLanguage_def generateContent_def)

lemma safetyCheck_resolved:
  assumes "ai' w (safety_request s) = Resolved text"
  shows "fst (safetyCheck ai' p s w) =
           (if no_text text then Inr \<lparr>safe = True, reason = None\<rparr> else parse_reply p text)"
  using assms by (simp add: safetyCheck_def generateContent_def)

text \<open>
  C6, amended. Let the service answer the operation's request with a text. Each of
  generateQuestion, decideNextStep, curateMaterial and localizeMaterial fails with
  EmptyResponse when there is no text, while checkSafety then returns safe = true. When
  there is text, each of the five fails with MalformedResponse if and only if the text
  does not parse, and otherwise returns the parsed value as it is: no field, type, option
  count, index range or nextAction is checked.
\<close>

theorem gateway_empty_and_malformed:
  assumes "\<forall>req \<in> set [assessment_request t g m c, adapt_request l k t2, curate_request t3 g3 f c3,
             bridge_request mat, safety_request s]. ai' w req = Resolved text"
  shows "(no_text text \<longrightarrow>
            fst (generateAssessment ai' p t g m c w)
              = Inl (EmptyResponse ''No response from Assessment Agent'')
          \<and> fst (adaptPath ai' p l k t2 w)
              = Inl (EmptyResponse ''No response from Adaptation Agent'')
          \<and> fst (curateContent ai' p t3 g3 f c3 w)
              = Inl (EmptyResponse ''No response from Curator Agent'')
          \<and> fst (bridgeLanguage ai' p mat lang w)
              = Inl (EmptyResponse ''No response from Language Bridge Agent'')
          \<and> fst (safetyCheck ai' vp s w) = Inr \<lparr>safe = True, reason = None\<rparr>)
       \<and> (\<forall>x. text = Some x \<and> x \<noteq> [] \<longrightarrow>
            fst (generateAssessment ai' p t g m c w)
              = (case p x of None \<Rightarrow> Inl MalformedResponse | Some v \<Rightarrow> Inr v)
          \<and> fst (adaptPath ai' p l k t2 w)
              = (case p x of None \<Rightarrow> Inl MalformedResponse | Some v \<Rightarrow> Inr v)
          \<and> fst (curateContent ai' p t3 g3 f c3 w)
              = (case p x of None \<Rightarrow> Inl MalformedResponse | Some v \<Rightarrow> Inr v)
          \<and> fst (bridgeLanguage ai' p mat lang w)
              = (case p x of None \<Rightarrow> Inl MalformedResponse | Some v \<Rightarrow> Inr v)
          \<and> fst (safetyCheck ai' vp s w)
              = (case vp x of None \<Rightarrow> Inl MalformedResponse | Some v \<Rightarrow> Inr v))"
proof -
  from assms have r: "ai' w (assessment_request t g m c) = Resolved text"
    "ai' w (adapt_request l k t2) = Resolved text"
    "ai' w (curate_request t3 g3 f c3) = Resolved text"
    "ai' w (bridge_request mat) = Resolved text"
    "ai' w (safety_request s) = Resolved text"
    by simp_all
  show ?thesis
    using r
    by (auto simp: generateAssessment_def adaptPath_def curateContent_def bridgeLanguage_def
        safetyCheck_def generateContent_def)
qed

text \<open>
  With no text the assessment fails with EmptyResponse and the safety check answers safe;
  with the text of the three-option question the assessment returns that question.
\<close>

theorem gateway_empty_and_malformed_witness:
  "fst (generateAssessment (answering None) (reads short_quiz_text short_quiz) ''Algebra'' ''9'' 0
          None [])
     = Inl (EmptyResponse ''No response from Assessment Agent'')
   \<and> fst (safetyCheck (answering None) (reads [] verdict_unsafe) ''Adding numbers.'' [])
     = Inr \<lparr>safe = True, reason = None\<rparr>
   \<and> fst (generateAssessment (answering (Some short_quiz_text))
          (reads short_quiz_text short_quiz) ''Algebra'' ''9'' 0 None [])
     = Inr short_quiz
   \<and> fst (adaptPath (answering (Some short_quiz_text)) (reads [] short_quiz) True 20
          ''Algebra'' [])
     = Inl MalformedResponse"
  using gateway_empty_and_malformed [of "''Algebra''" "''9''" 0 None True 20 "''Algebra''"
      "''Algebra''" "''9''" "''sums''" None demo_raw "''Adding numbers.''" "answering None" "[]"
      None "reads short_quiz_text short_quiz" urdu_mix "reads [] verdict_unsafe"]
    gateway_empty_and_malformed [of "''Algebra''" "''9''" 0 None True 20 "''Algebra''"
      "''Algebra''" "''9''" "''sums''" None demo_raw "''Adding numbers.''"
      "answering (Some short_quiz_text)" "[]" "Some short_quiz_text"
      "reads short_quiz_text short_quiz" urdu_mix "reads [] verdict_unsafe"]
    gateway_empty_and_malformed [of "''Algebra''" "''9''" 0 None True 20 "''Algebra''"
      "''Algebra''" "''9''" "''sums''" None demo_raw "''Adding numbers.''"
      "answering (Some short_quiz_text)" "[]" "Some short_quiz_text"
      "reads [] short_quiz" urdu_mix "reads [] verdict_unsafe"]
  by (simp add: answering_def reads_def short_quiz_text_def)

end
